theory Spec2Isabelle
  imports Complex_Main
begin

section \<open>Instants and the status arithmetic of the storage layer\<close>

text \<open>
  A JavaScript \<open>Date\<close> holds a time value: an integral number of milliseconds since the
  epoch (\<open>getTime()\<close>). Instants are modelled as \<open>int\<close>. Every \<open>new Date()\<close> of the
  source reads the wall clock; the reading is an explicit argument \<open>now\<close> here.

  \<open>Math.ceil(timeDiff / (1000 * 3600 * 24))\<close> is modelled with the exact difference and the
  exact quotient. The source computes both in binary64. For two instants at most \<open>2^53\<close> ms
  apart (about 285,000 years) it has the same ceiling: the difference is an exact integer, a
  quotient that is a whole number is computed exactly, and any other quotient is less than
  \<open>2^27\<close> in size and at least \<open>1 / 86400000\<close> away from a whole number, more than the
  rounding error \<open>2^-27\<close> of the division. Beyond \<open>2^53\<close> ms the subtraction rounds and the
  two may differ by one; the theorems below that give the value of a day count, and not
  only its sign, do so at concrete instants within that range.
\<close>

type_synonym instant = int

definition msPerDay :: int where
  "msPerDay = 1000 * 3600 * 24"

definition calculateDaysUntilExpiry :: "instant \<Rightarrow> instant \<Rightarrow> int" where
  "calculateDaysUntilExpiry now expiryDate =
     (let timeDiff = expiryDate - now
      in \<lceil>real_of_int timeDiff / real_of_int msPerDay\<rceil>)"

definition isExpired :: "instant \<Rightarrow> instant \<Rightarrow> bool" where
  "isExpired now expiryDate = (now > expiryDate)"

text \<open>
  \<open>enrichSubscription\<close> computes the three derived fields from one clock reading.
  \<open>progressPercentage\<close> is \<open>Math.max(0, Math.min(100, ((totalDays - daysUntilExpiry) /
  totalDays) * 100))\<close> with \<open>totalDays = 365\<close>; it is kept here as a function of the day
  count so that it can be studied on its own.
\<close>

definition totalDays :: int where
  "totalDays = 365"

definition progressPercentage :: "int \<Rightarrow> real" where
  "progressPercentage daysUntilExpiry =
     max 0 (min 100 ((real_of_int (totalDays - daysUntilExpiry) / real_of_int totalDays) * 100))"

record derived =
  d_isExpired :: bool
  d_daysUntilExpiry :: int
  d_progressPercentage :: real

definition subscriptionDerived :: "instant \<Rightarrow> instant \<Rightarrow> derived" where
  "subscriptionDerived now endDate =
     (let timeDiff = endDate - now;
          daysUntilExpiry = \<lceil>real_of_int timeDiff / real_of_int msPerDay\<rceil>;
          isExp = (endDate < now)
      in \<lparr> d_isExpired = isExp,
           d_daysUntilExpiry = daysUntilExpiry,
           d_progressPercentage = progressPercentage daysUntilExpiry \<rparr>)"

section \<open>Strings\<close>

text \<open>
  Text is a \<open>string\<close>: a list of the code units 0 to 255 (the Latin-1 range of a
  JavaScript string). Classes of characters are written as the lists of their members.
  \<open>toLowerCase\<close> maps \<open>A\<close> to \<open>Z\<close> and the upper-case letters of Latin-1 to their
  lower-case forms; \<open>includes\<close> (here \<open>includes_str\<close>) is the substring test and
  \<open>indexOf\<close> gives the first position of a substring, or -1.
\<close>

definition lowerAZ :: string where "lowerAZ = ''abcdefghijklmnopqrstuvwxyz''"

definition upperAZ :: string where "upperAZ = ''ABCDEFGHIJKLMNOPQRSTUVWXYZ''"

definition digits :: string where "digits = ''0123456789''"

definition upperL1 :: string where
  "upperL1 = [CHR 0xC0, CHR 0xC1, CHR 0xC2, CHR 0xC3, CHR 0xC4, CHR 0xC5, CHR 0xC6, CHR 0xC7,
     CHR 0xC8, CHR 0xC9, CHR 0xCA, CHR 0xCB, CHR 0xCC, CHR 0xCD, CHR 0xCE, CHR 0xCF,
     CHR 0xD0, CHR 0xD1, CHR 0xD2, CHR 0xD3, CHR 0xD4, CHR 0xD5, CHR 0xD6,
     CHR 0xD8, CHR 0xD9, CHR 0xDA, CHR 0xDB, CHR 0xDC, CHR 0xDD, CHR 0xDE]"

definition lowerL1 :: string where
  "lowerL1 = [CHR 0xE0, CHR 0xE1, CHR 0xE2, CHR 0xE3, CHR 0xE4, CHR 0xE5, CHR 0xE6, CHR 0xE7,
     CHR 0xE8, CHR 0xE9, CHR 0xEA, CHR 0xEB, CHR 0xEC, CHR 0xED, CHR 0xEE, CHR 0xEF,
     CHR 0xF0, CHR 0xF1, CHR 0xF2, CHR 0xF3, CHR 0xF4, CHR 0xF5, CHR 0xF6,
     CHR 0xF8, CHR 0xF9, CHR 0xFA, CHR 0xFB, CHR 0xFC, CHR 0xFD, CHR 0xFE]"

definition toLowerChar :: "char \<Rightarrow> char" where
  "toLowerChar c =
     (case map_of (zip (upperAZ @ upperL1) (lowerAZ @ lowerL1)) c of Some l \<Rightarrow> l | None \<Rightarrow> c)"

definition toLowerCase :: "string \<Rightarrow> string" where
  "toLowerCase s = map toLowerChar s"

fun startsWith :: "string \<Rightarrow> string \<Rightarrow> bool" where
  "startsWith s [] = True"
| "startsWith [] (n # ns) = False"
| "startsWith (c # cs) (n # ns) = (c = n \<and> startsWith cs ns)"

fun includes_str :: "string \<Rightarrow> string \<Rightarrow> bool" where
  "includes_str [] needle = (needle = [])"
| "includes_str (c # cs) needle = (startsWith (c # cs) needle \<or> includes_str cs needle)"

fun indexFrom :: "int \<Rightarrow> string \<Rightarrow> string \<Rightarrow> int" where
  "indexFrom i [] needle = (if needle = [] then i else - 1)"
| "indexFrom i (c # cs) needle =
     (if startsWith (c # cs) needle then i else indexFrom (i + 1) cs needle)"

definition indexOf :: "string \<Rightarrow> string \<Rightarrow> int" where
  "indexOf s needle = indexFrom 0 s needle"

text \<open>
  White space of the regular-expression class and of \<open>trim\<close> within the modelled range:
  tab, line feed, vertical tab, form feed, carriage return, space and the no-break space.
  \<open>collapse\<close> is the replacement of the first statement of \<open>extractExpiryDate\<close>:
  every maximal run of white space becomes one space.
\<close>

definition spaces :: string where
  "spaces = [CHR 0x09, CHR 0x0A, CHR 0x0B, CHR 0x0C, CHR 0x0D, CHR 0x20, CHR 0xA0]"

definition isSpace :: "char \<Rightarrow> bool" where
  "isSpace c = (c \<in> set spaces)"

definition trim :: "string \<Rightarrow> string" where
  "trim s = rev (dropWhile isSpace (rev (dropWhile isSpace s)))"

fun collapse :: "string \<Rightarrow> string" where
  "collapse [] = []"
| "collapse (c # cs) =
     (if isSpace c
      then (case cs of
              [] \<Rightarrow> [CHR 0x20]
            | d # ds \<Rightarrow> if isSpace d then collapse cs else CHR 0x20 # collapse cs)
      else c # collapse cs)"

section \<open>The storage layer\<close>

text \<open>
  A stored certificate row (the \<open>certificates\<close> table of shared/schema.ts) and the
  \<open>Certificate\<close> returned to callers, which adds the two derived fields. Likewise for
  subscriptions, with three derived fields. The successive clock reads of one call are one
  reading \<open>now\<close>.
\<close>

record certificateRow =
  c_id :: string
  c_name :: string
  c_issuer :: "string option"
  c_expiryDate :: instant
  c_uploadedAt :: instant
  c_fileName :: string
  c_fileSize :: int
  c_filePath :: string
  c_ocrText :: "string option"

record Certificate = certificateRow +
  c_isExpired :: bool
  c_daysUntilExpiry :: int

record subscriptionRow =
  s_id :: string
  s_title :: string
  s_email :: string
  s_cardTitle :: string
  s_endDate :: instant
  s_amount :: real
  s_createdAt :: instant
  s_updatedAt :: instant

record Subscription = subscriptionRow +
  s_isExpired :: bool
  s_daysUntilExpiry :: int
  s_progressPercentage :: real

record InsertCertificate =
  ic_name :: string
  ic_issuer :: "string option"
  ic_expiryDate :: instant
  ic_fileName :: string
  ic_fileSize :: int
  ic_filePath :: string
  ic_ocrText :: "string option"

record InsertSubscription =
  is_title :: string
  is_email :: string
  is_cardTitle :: string
  is_endDate :: instant
  is_amount :: real

datatype statusFilter = All | FValid | FExpiring | FExpired

record SearchCertificatesParams =
  p_status :: "statusFilter option"
  p_limit :: "nat option"
  p_offset :: "nat option"

definition enrichCertificate :: "instant \<Rightarrow> 'a certificateRow_scheme \<Rightarrow> Certificate" where
  "enrichCertificate now cert =
     \<lparr> c_id = c_id cert, c_name = c_name cert, c_issuer = c_issuer cert,
       c_expiryDate = c_expiryDate cert, c_uploadedAt = c_uploadedAt cert,
       c_fileName = c_fileName cert, c_fileSize = c_fileSize cert,
       c_filePath = c_filePath cert, c_ocrText = c_ocrText cert,
       c_isExpired = isExpired now (c_expiryDate cert),
       c_daysUntilExpiry = calculateDaysUntilExpiry now (c_expiryDate cert) \<rparr>"

definition enrichSubscription :: "instant \<Rightarrow> 'a subscriptionRow_scheme \<Rightarrow> Subscription" where
  "enrichSubscription now sub =
     (let d = subscriptionDerived now (s_endDate sub)
      in \<lparr> s_id = s_id sub, s_title = s_title sub, s_email = s_email sub,
           s_cardTitle = s_cardTitle sub, s_endDate = s_endDate sub, s_amount = s_amount sub,
           s_createdAt = s_createdAt sub, s_updatedAt = s_updatedAt sub,
           s_isExpired = d_isExpired d,
           s_daysUntilExpiry = d_daysUntilExpiry d,
           s_progressPercentage = d_progressPercentage d \<rparr>)"

subsection \<open>PostgreSQLStorage\<close>

text \<open>
  The database is the list of its rows. The \<open>ilike\<close> operator of the search query is a
  parameter. Every read maps the selected rows through the enrichment.
\<close>

record database =
  certificates :: "certificateRow list"
  subscriptions :: "subscriptionRow list"

definition pg_getCertificate :: "instant \<Rightarrow> database \<Rightarrow> string \<Rightarrow> Certificate option" where
  "pg_getCertificate now db ident =
     (case filter (\<lambda>r. c_id r = ident) (certificates db) of
        [] \<Rightarrow> None
      | r # _ \<Rightarrow> Some (enrichCertificate now r))"

definition pg_statusWhere :: "instant \<Rightarrow> statusFilter option \<Rightarrow> certificateRow \<Rightarrow> bool" where
  "pg_statusWhere dbNow st r =
     (case st of
        None \<Rightarrow> True
      | Some All \<Rightarrow> True
      | Some FExpired \<Rightarrow> c_expiryDate r < dbNow
      | Some FExpiring \<Rightarrow> c_expiryDate r \<ge> dbNow \<and> c_expiryDate r \<le> dbNow + 30 * msPerDay
      | Some FValid \<Rightarrow> c_expiryDate r > dbNow + 30 * msPerDay)"

definition pg_page :: "SearchCertificatesParams option \<Rightarrow> 'a list \<Rightarrow> 'a list" where
  "pg_page params rows =
     (let off = (case params of None \<Rightarrow> None | Some p \<Rightarrow> p_offset p);
          lim = (case params of None \<Rightarrow> None | Some p \<Rightarrow> p_limit p);
          r1 = (case off of None \<Rightarrow> rows | Some k \<Rightarrow> if k = 0 then rows else drop k rows)
      in case lim of None \<Rightarrow> r1 | Some k \<Rightarrow> if k = 0 then r1 else take k r1)"

definition pg_getCertificates ::
  "instant \<Rightarrow> instant \<Rightarrow> database \<Rightarrow> SearchCertificatesParams option \<Rightarrow> Certificate list" where
  "pg_getCertificates now dbNow db params =
     (let st = (case params of None \<Rightarrow> None | Some p \<Rightarrow> p_status p);
          rows = sort_key c_expiryDate (filter (pg_statusWhere dbNow st) (certificates db))
      in map (enrichCertificate now) (pg_page params rows))"

definition pg_searchCertificates ::
  "(string option \<Rightarrow> string \<Rightarrow> bool) \<Rightarrow> instant \<Rightarrow> instant \<Rightarrow> database \<Rightarrow> string
   \<Rightarrow> Certificate list" where
  "pg_searchCertificates ilike now dbNow db query =
     (if trim query = [] then pg_getCertificates now dbNow db None
      else let searchTerm = ''%'' @ query @ ''%'';
               rows = sort_key c_expiryDate
                 (filter (\<lambda>r. ilike (Some (c_name r)) searchTerm \<or> ilike (c_issuer r) searchTerm
                               \<or> ilike (c_ocrText r) searchTerm
                               \<or> ilike (Some (c_fileName r)) searchTerm)
                    (certificates db))
           in map (enrichCertificate now) rows)"

definition pg_getSubscription :: "instant \<Rightarrow> database \<Rightarrow> string \<Rightarrow> Subscription option" where
  "pg_getSubscription now db ident =
     (case filter (\<lambda>r. s_id r = ident) (subscriptions db) of
        [] \<Rightarrow> None
      | r # _ \<Rightarrow> Some (enrichSubscription now r))"

definition pg_getSubscriptions :: "instant \<Rightarrow> database \<Rightarrow> Subscription list" where
  "pg_getSubscriptions now db = map (enrichSubscription now) (subscriptions db)"

subsection \<open>InMemoryStorage\<close>

text \<open>
  The two arrays hold \<open>Certificate\<close> and \<open>Subscription\<close> objects, derived fields
  included. \<open>createCertificate\<close> enriches the new object once and pushes it;
  \<open>randomUUID()\<close> is the argument \<open>uuid\<close>. The reads return the stored objects.
\<close>

record memory =
  items :: "Certificate list"
  subscriptionItems :: "Subscription list"

definition mem_createCertificate ::
  "instant \<Rightarrow> string \<Rightarrow> InsertCertificate \<Rightarrow> memory \<Rightarrow> Certificate \<times> memory" where
  "mem_createCertificate now uuid ins m =
     (let cert = enrichCertificate now
            \<lparr> c_id = uuid, c_name = ic_name ins, c_issuer = ic_issuer ins,
              c_expiryDate = ic_expiryDate ins, c_uploadedAt = now,
              c_fileName = ic_fileName ins, c_fileSize = ic_fileSize ins,
              c_filePath = ic_filePath ins, c_ocrText = ic_ocrText ins \<rparr>
      in (cert, m\<lparr>items := items m @ [cert]\<rparr>))"

definition mem_getCertificate :: "memory \<Rightarrow> string \<Rightarrow> Certificate option" where
  "mem_getCertificate m ident = find (\<lambda>i. c_id i = ident) (items m)"

definition mem_getCertificates ::
  "instant \<Rightarrow> memory \<Rightarrow> SearchCertificatesParams option \<Rightarrow> Certificate list" where
  "mem_getCertificates now m params =
     (let st = (case params of None \<Rightarrow> None | Some p \<Rightarrow> p_status p);
          in30 = now + 30 * 24 * 3600 * 1000;
          r0 = items m;
          r1 = (case st of
                  None \<Rightarrow> r0
                | Some All \<Rightarrow> r0
                | Some FExpired \<Rightarrow> filter (\<lambda>c. c_expiryDate c < now) r0
                | Some FExpiring \<Rightarrow> filter (\<lambda>c. c_expiryDate c \<ge> now \<and> c_expiryDate c \<le> in30) r0
                | Some FValid \<Rightarrow> filter (\<lambda>c. c_expiryDate c > in30) r0);
          r2 = sort_key c_expiryDate r1;
          r3 = (case (case params of None \<Rightarrow> None | Some p \<Rightarrow> p_offset p) of
                  None \<Rightarrow> r2 | Some k \<Rightarrow> drop k r2)
      in case (case params of None \<Rightarrow> None | Some p \<Rightarrow> p_limit p) of
           None \<Rightarrow> r3 | Some k \<Rightarrow> take k r3)"

definition orEmpty :: "string option \<Rightarrow> string" where
  "orEmpty v = (case v of None \<Rightarrow> [] | Some s \<Rightarrow> s)"

definition mem_searchCertificates :: "instant \<Rightarrow> memory \<Rightarrow> string \<Rightarrow> Certificate list" where
  "mem_searchCertificates now m query =
     (let q = toLowerCase query
      in if trim q = [] then mem_getCertificates now m None
         else filter (\<lambda>c. includes_str (toLowerCase (c_name c)) q
                         \<or> includes_str (toLowerCase (orEmpty (c_issuer c))) q
                         \<or> includes_str (toLowerCase (orEmpty (c_ocrText c))) q
                         \<or> includes_str (toLowerCase (c_fileName c)) q)
                (items m))"

definition mem_createSubscription ::
  "instant \<Rightarrow> string \<Rightarrow> InsertSubscription \<Rightarrow> memory \<Rightarrow> Subscription \<times> memory" where
  "mem_createSubscription now uuid ins m =
     (let sub = enrichSubscription now
            \<lparr> s_id = uuid, s_title = is_title ins, s_email = is_email ins,
              s_cardTitle = is_cardTitle ins, s_endDate = is_endDate ins,
              s_amount = is_amount ins, s_createdAt = now, s_updatedAt = now \<rparr>
      in (sub, m\<lparr>subscriptionItems := subscriptionItems m @ [sub]\<rparr>))"

definition mem_getSubscription :: "memory \<Rightarrow> string \<Rightarrow> Subscription option" where
  "mem_getSubscription m ident = find (\<lambda>i. s_id i = ident) (subscriptionItems m)"

definition mem_getSubscriptions :: "memory \<Rightarrow> Subscription list" where
  "mem_getSubscriptions m = subscriptionItems m"

text \<open>A returned certificate is fresh at \<open>now\<close> when its derived fields are those the
  classifier computes at \<open>now\<close> from its expiry instant.\<close>

definition freshCertificate :: "instant \<Rightarrow> Certificate \<Rightarrow> bool" where
  "freshCertificate now c \<longleftrightarrow>
     c_isExpired c = isExpired now (c_expiryDate c)
     \<and> c_daysUntilExpiry c = calculateDaysUntilExpiry now (c_expiryDate c)"

section \<open>Calendar arithmetic of the Date object\<close>

text \<open>
  The day-number functions of the ECMAScript specification, on day numbers (days since
  the epoch) and calendar years: \<open>DayFromYear\<close>, \<open>DaysInYear\<close>, \<open>MakeDay\<close>, and the
  readers \<open>YearFromTime\<close>, \<open>MonthFromTime\<close>, \<open>DateFromTime\<close> (here on day numbers).
  The specification defines \<open>YearFromTime\<close> as the largest year whose first day is not
  after the given day; \<open>YearFromDay\<close> computes it from an estimate that is off by at most
  one (lemma \<open>YearFromDay_spec\<close> shows that it is that year). Months are numbered from 0.
  \<open>MakeDay\<close> carries a month outside 0..11 into the year and counts the day of the month
  on from the first of the month, whatever its size: this is the roll-over of the
  \<open>Date\<close> constructor.

  The local time zone of the host is taken to be UTC, without daylight saving, so that a
  local midnight is a multiple of \<open>msPerDay\<close>.
\<close>

definition InLeapYear :: "int \<Rightarrow> bool" where
  "InLeapYear y = (y mod 4 = 0 \<and> (y mod 100 \<noteq> 0 \<or> y mod 400 = 0))"

definition DaysInYear :: "int \<Rightarrow> int" where
  "DaysInYear y = (if InLeapYear y then 366 else 365)"

definition DayFromYear :: "int \<Rightarrow> int" where
  "DayFromYear y =
     365 * (y - 1970) + (y - 1969) div 4 - (y - 1901) div 100 + (y - 1601) div 400"

definition YearFromDay :: "int \<Rightarrow> int" where
  "YearFromDay d =
     (let e = 1970 + (400 * d) div 146097
      in if DayFromYear (e + 1) \<le> d then e + 1
         else if DayFromYear e \<le> d then e
         else e - 1)"

definition leapOffset :: "bool \<Rightarrow> int" where
  "leapOffset leap = (if leap then 1 else 0)"

definition monthStart :: "bool \<Rightarrow> int \<Rightarrow> int" where
  "monthStart leap mn =
     (if mn = 0 then 0
      else if mn = 1 then 31
      else if mn = 2 then 59 + leapOffset leap
      else if mn = 3 then 90 + leapOffset leap
      else if mn = 4 then 120 + leapOffset leap
      else if mn = 5 then 151 + leapOffset leap
      else if mn = 6 then 181 + leapOffset leap
      else if mn = 7 then 212 + leapOffset leap
      else if mn = 8 then 243 + leapOffset leap
      else if mn = 9 then 273 + leapOffset leap
      else if mn = 10 then 304 + leapOffset leap
      else 334 + leapOffset leap)"

definition MakeDay :: "int \<Rightarrow> int \<Rightarrow> int \<Rightarrow> int" where
  "MakeDay year month date =
     (let ym = year + month div 12;
          mn = month mod 12
      in DayFromYear ym + monthStart (InLeapYear ym) mn + date - 1)"

definition DayWithinYear :: "int \<Rightarrow> int" where
  "DayWithinYear d = d - DayFromYear (YearFromDay d)"

definition MonthFromDay :: "int \<Rightarrow> int" where
  "MonthFromDay d =
     (let w = DayWithinYear d; l = leapOffset (InLeapYear (YearFromDay d))
      in if w < 31 then 0
         else if w < 59 + l then 1
         else if w < 90 + l then 2
         else if w < 120 + l then 3
         else if w < 151 + l then 4
         else if w < 181 + l then 5
         else if w < 212 + l then 6
         else if w < 243 + l then 7
         else if w < 273 + l then 8
         else if w < 304 + l then 9
         else if w < 334 + l then 10
         else 11)"

definition DateFromDay :: "int \<Rightarrow> int" where
  "DateFromDay d =
     DayWithinYear d - monthStart (InLeapYear (YearFromDay d)) (MonthFromDay d) + 1"

definition DaysInMonth :: "int \<Rightarrow> int \<Rightarrow> int" where
  "DaysInMonth y mn =
     (if mn = 1 then (if InLeapYear y then 29 else 28)
      else if mn = 3 \<or> mn = 5 \<or> mn = 8 \<or> mn = 10 then 30
      else 31)"

text \<open>
  \<open>new Date(year, monthIndex, day)\<close>: a year from 0 to 99 means 1900 + year, the result
  is the local midnight of \<open>MakeDay\<close>, and \<open>TimeClip\<close> makes it an Invalid Date beyond
  8.64e15 ms. A \<open>Date\<close> is an \<open>int option\<close>, \<open>None\<close> being the Invalid Date (time value
  NaN). \<open>parseInt\<close> is modelled on the strings it receives here, which start with a digit:
  it reads the leading digits, and gives NaN (\<open>None\<close>) when there are none.
\<close>

definition digitVal :: "char \<Rightarrow> int" where
  "digitVal c = (case map_of (zip digits [0, 1, 2, 3, 4, 5, 6, 7, 8, 9]) c of Some v \<Rightarrow> v | None \<Rightarrow> 0)"

definition num :: "string \<Rightarrow> int" where
  "num s = foldl (\<lambda>a c. 10 * a + digitVal c) 0 s"

definition parseInt :: "string \<Rightarrow> int option" where
  "parseInt s =
     (let ds = takeWhile (\<lambda>c. c \<in> set digits) s
      in if ds = [] then None else Some (foldl (\<lambda>a c. 10 * a + digitVal c) 0 ds))"

definition TimeClip :: "int \<Rightarrow> int option" where
  "TimeClip t = (if \<bar>t\<bar> > 8640000000000000 then None else Some t)"

definition newDate3 :: "int option \<Rightarrow> int option \<Rightarrow> int option \<Rightarrow> int option" where
  "newDate3 year month date =
     (case (year, month, date) of
        (Some y, Some mo, Some dt) \<Rightarrow>
          (let yr = (if 0 \<le> y \<and> y \<le> 99 then 1900 + y else y)
           in TimeClip (MakeDay yr mo dt * msPerDay))
      | _ \<Rightarrow> None)"

definition getFullYear :: "int \<Rightarrow> int" where
  "getFullYear t = YearFromDay (t div msPerDay)"

definition getMonth :: "int \<Rightarrow> int" where
  "getMonth t = MonthFromDay (t div msPerDay)"

definition getDate :: "int \<Rightarrow> int" where
  "getDate t = DateFromDay (t div msPerDay)"

text \<open>
  \<open>new Date(string)\<close>. ECMAScript fixes the result for a string in its date-time format
  with in-range fields; for every other string the result is up to the host. \<open>isoParse\<close> is
  the fixed part for the two shapes the program builds, \<open>YYYY-MM-DDTHH:mm:ss\<close> with and without
  a final \<open>Z\<close>, accepting real calendar dates only; the host's parser for the rest is the
  parameter \<open>native\<close> of every function below.
\<close>

definition isoParse :: "string \<Rightarrow> int option" where
  "isoParse s =
     (let b = (if length s = 20 \<and> last s = CHR ''Z'' then butlast s else s)
      in if length b = 19
            \<and> map (\<lambda>i. b ! i) [4, 7, 10, 13, 16] = ''--T::''
            \<and> list_all (\<lambda>i. b ! i \<in> set digits) [0, 1, 2, 3, 5, 6, 8, 9, 11, 12, 14, 15, 17, 18]
         then (let y = num (take 4 b); mo = num (take 2 (drop 5 b)); d = num (take 2 (drop 8 b));
                   h = num (take 2 (drop 11 b)); mi = num (take 2 (drop 14 b));
                   sec = num (take 2 (drop 17 b))
               in if 1 \<le> mo \<and> mo \<le> 12 \<and> 1 \<le> d \<and> d \<le> DaysInMonth y (mo - 1)
                     \<and> h \<le> 23 \<and> mi \<le> 59 \<and> sec \<le> 59
                  then Some (MakeDay y (mo - 1) d * msPerDay
                             + h * 3600000 + mi * 60000 + sec * 1000)
                  else None)
         else None)"

definition newDateStr :: "(string \<Rightarrow> int option) \<Rightarrow> string \<Rightarrow> int option" where
  "newDateStr native s = (case isoParse s of Some t \<Rightarrow> Some t | None \<Rightarrow> native s)"

section \<open>Regular expressions\<close>

text \<open>
  The regular expressions of the program, as syntax trees, and the backtracking matcher of
  the ECMAScript specification: \<open>matches ic r i s c k\<close> matches \<open>r\<close> at position \<open>i\<close> against
  the rest \<open>s\<close> of the input with the captures \<open>c\<close> made so far, and hands position,
  rest and captures to the continuation \<open>k\<close>; alternatives are tried in order, \<open>Star\<close> is
  greedy and \<open>Lazy\<close> is the non-greedy star, and an iteration that consumes nothing is
  rejected. With the flag \<open>i\<close> two characters match when their canonical (upper-case)
  forms agree; code units from 128 on never canonicalise to an ASCII unit, so for the ASCII
  patterns of this program only the folding of \<open>a\<close> to \<open>z\<close> matters. Captures are listed in
  the order in which their groups close, which is the order of the groups in every pattern
  here. \<open>rx_match\<close> is \<open>String.prototype.match\<close> without the flag \<open>g\<close>: the leftmost
  match, as the matched text \<open>match[0]\<close> and the captures.
\<close>

definition canon :: "char \<Rightarrow> char" where
  "canon c = (case map_of (zip lowerAZ upperAZ) c of Some u \<Rightarrow> u | None \<Rightarrow> c)"

definition uncanon :: "char \<Rightarrow> char" where
  "uncanon c = (case map_of (zip upperAZ lowerAZ) c of Some u \<Rightarrow> u | None \<Rightarrow> c)"

datatype cls = Digit | Space | AnyChar | OneOf string

datatype rx = Lit char | Class cls | Eps | Seq rx rx | Alt rx rx | Opt rx | Star rx | Lazy rx
  | Group rx | Bol | Eol

fun inCls :: "cls \<Rightarrow> char \<Rightarrow> bool" where
  "inCls Digit c = (c \<in> set digits)"
| "inCls Space c = isSpace c"
| "inCls AnyChar c = (c \<noteq> CHR 0x0A \<and> c \<noteq> CHR 0x0D)"
| "inCls (OneOf cs) c = (c \<in> set cs)"

definition clsMatch :: "bool \<Rightarrow> cls \<Rightarrow> char \<Rightarrow> bool" where
  "clsMatch ic cl c =
     (inCls cl c \<or> (ic \<and> (inCls cl (canon c) \<or> inCls cl (uncanon c))))"

definition litMatch :: "bool \<Rightarrow> char \<Rightarrow> char \<Rightarrow> bool" where
  "litMatch ic a c = (if ic then canon a = canon c else a = c)"

type_synonym caps = "string list"

fun matches :: "bool \<Rightarrow> rx \<Rightarrow> nat \<Rightarrow> string \<Rightarrow> caps \<Rightarrow> (nat \<Rightarrow> string \<Rightarrow> caps \<Rightarrow> 'r option) \<Rightarrow> 'r option" where
  "matches ic (Lit a) i s c k =
     (case s of [] \<Rightarrow> None | x # xs \<Rightarrow> if litMatch ic a x then k (i + 1) xs c else None)"
| "matches ic (Class cl) i s c k =
     (case s of [] \<Rightarrow> None | x # xs \<Rightarrow> if clsMatch ic cl x then k (i + 1) xs c else None)"
| "matches ic Eps i s c k = k i s c"
| "matches ic (Seq a b) i s c k = matches ic a i s c (\<lambda>i' s' c'. matches ic b i' s' c' k)"
| "matches ic (Alt a b) i s c k =
     (case matches ic a i s c k of Some r \<Rightarrow> Some r | None \<Rightarrow> matches ic b i s c k)"
| "matches ic (Opt a) i s c k =
     (case matches ic a i s c k of Some r \<Rightarrow> Some r | None \<Rightarrow> k i s c)"
| "matches ic (Star a) i s c k =
     (case matches ic a i s c
             (\<lambda>i' s' c'. if length s' < length s then matches ic (Star a) i' s' c' k else None)
      of Some r \<Rightarrow> Some r | None \<Rightarrow> k i s c)"
| "matches ic (Lazy a) i s c k =
     (case k i s c of Some r \<Rightarrow> Some r
      | None \<Rightarrow> matches ic a i s c
             (\<lambda>i' s' c'. if length s' < length s then matches ic (Lazy a) i' s' c' k else None))"
| "matches ic (Group a) i s c k = matches ic a i s c (\<lambda>i' s' c'. k i' s' (c' @ [take (i' - i) s]))"
| "matches ic Bol i s c k = (if i = 0 then k i s c else None)"
| "matches ic Eol i s c k = (if s = [] then k i s c else None)"

definition accept :: "nat \<Rightarrow> string \<Rightarrow> caps \<Rightarrow> (nat \<times> caps) option" where
  "accept j s c = Some (j, c)"

fun searchFrom :: "bool \<Rightarrow> rx \<Rightarrow> nat \<Rightarrow> string \<Rightarrow> (string \<times> caps) option" where
  "searchFrom ic r i [] =
     (case matches ic r i [] [] accept of
        Some (j, c) \<Rightarrow> Some ([], c) | None \<Rightarrow> None)"
| "searchFrom ic r i (x # xs) =
     (case matches ic r i (x # xs) [] accept of
        Some (j, c) \<Rightarrow> Some (take (j - i) (x # xs), c)
      | None \<Rightarrow> searchFrom ic r (i + 1) xs)"

record regexp =
  source :: string
  ignoreCase :: bool
  node :: rx

definition rx_match :: "regexp \<Rightarrow> string \<Rightarrow> (string \<times> caps) option" where
  "rx_match p s = searchFrom (ignoreCase p) (node p) 0 s"

definition rx_test :: "regexp \<Rightarrow> string \<Rightarrow> bool" where
  "rx_test p s = (rx_match p s \<noteq> None)"

fun seqs :: "rx list \<Rightarrow> rx" where
  "seqs [] = Eps"
| "seqs [r] = r"
| "seqs (r # rs) = Seq r (seqs rs)"

fun alts :: "rx list \<Rightarrow> rx" where
  "alts [] = Eps"
| "alts [r] = r"
| "alts (r # rs) = Alt r (alts rs)"

definition word :: "string \<Rightarrow> rx" where
  "word w = seqs (map Lit w)"

definition Plus :: "rx \<Rightarrow> rx" where
  "Plus r = Seq r (Star r)"

text \<open>The continuations the matcher builds, as named functions; they serve the evaluation
  of the matcher on concrete texts.\<close>

definition seqk :: "bool \<Rightarrow> rx \<Rightarrow> (nat \<Rightarrow> string \<Rightarrow> caps \<Rightarrow> 'r option) \<Rightarrow> nat \<Rightarrow> string \<Rightarrow> caps \<Rightarrow> 'r option" where
  "seqk ic b k = (\<lambda>i' s' c'. matches ic b i' s' c' k)"

definition stark :: "bool \<Rightarrow> rx \<Rightarrow> nat \<Rightarrow> (nat \<Rightarrow> string \<Rightarrow> caps \<Rightarrow> 'r option) \<Rightarrow> nat \<Rightarrow> string \<Rightarrow> caps \<Rightarrow> 'r option" where
  "stark ic r n k = (\<lambda>i' s' c'. if length s' < n then matches ic r i' s' c' k else None)"

definition grpk :: "nat \<Rightarrow> string \<Rightarrow> (nat \<Rightarrow> string \<Rightarrow> caps \<Rightarrow> 'r option) \<Rightarrow> nat \<Rightarrow> string \<Rightarrow> caps \<Rightarrow> 'r option" where
  "grpk i s k = (\<lambda>i' s' c'. k i' s' (c' @ [take (i' - i) s]))"

section \<open>DateExtractor\<close>

subsection \<open>The pattern table\<close>

text \<open>
  Each pattern is kept with its \<open>source\<close> text, which \<open>calculateConfidence\<close> and
  \<open>parseDate\<close> inspect. A string literal cannot hold a backslash here: the sources are
  written with a tilde in its place and \<open>unesc\<close> puts the backslash back.
  In that writing the capture \<open>named\<close> is \<open>([a-z]+ ~d{1,2},?~s+~d{4})\<close>,
  \<open>slashed\<close> is \<open>(~d{1,2}[~/~-]~d{1,2}[~/~-]~d{4})\<close> and \<open>isoish\<close> is
  \<open>(~d{4}[~/~-]~d{1,2}[~/~-]~d{1,2})\<close>.
\<close>

definition unesc :: "string \<Rightarrow> string" where
  "unesc s = map (\<lambda>c. if c = CHR ''~'' then CHR 0x5C else c) s"

definition dig12 :: rx where "dig12 = Seq (Class Digit) (Opt (Class Digit))"

definition dig2 :: rx where "dig2 = Seq (Class Digit) (Class Digit)"

definition dig4 :: rx where "dig4 = seqs [Class Digit, Class Digit, Class Digit, Class Digit]"

definition sep :: rx where "sep = Class (OneOf ''/-'')"

definition ws0 :: rx where "ws0 = Star (Class Space)"

definition ws1 :: rx where "ws1 = Plus (Class Space)"

definition label :: rx where
  "label = alts [Seq (word ''expir'') (Class (OneOf ''ey'')), word ''valid'',
                 Seq (word ''expire'') (Opt (Lit CHR ''s''))]"

definition qualifier :: rx where
  "qualifier = Opt (Seq ws1
      (alts [word ''date'', word ''on'', word ''until'', word ''through'', word ''thru'']))"

definition validUntil :: rx where
  "validUntil = seqs [word ''valid'', ws1, alts [word ''until'', word ''through'', word ''thru'']]"

definition colon :: rx where
  "colon = seqs [ws0, Opt (Lit CHR '':''), ws0]"

definition expirAny :: rx where
  "expirAny = seqs [word ''expir'', Class (OneOf ''ey''), Lazy (Class AnyChar)]"

definition named :: rx where
  "named = Group (seqs [Plus (Class (OneOf lowerAZ)), Lit CHR 0x20, dig12,
                         Opt (Lit CHR '',''), ws1, dig4])"

definition slashed :: rx where
  "slashed = Group (seqs [dig12, sep, dig12, sep, dig4])"

definition isoish :: rx where
  "isoish = Group (seqs [dig4, sep, dig12, sep, dig12])"

definition srcLabel :: string where
  "srcLabel = ''(?:expir[ey]|valid|expires?)(?:~s+(?:date|on|until|through|thru))?~s*:?~s*''"

definition srcValid :: string where
  "srcValid = ''(?:valid~s+(?:until|through|thru))~s*:?~s*''"

definition srcExpir :: string where
  "srcExpir = ''expir[ey].*?''"

definition srcNamed :: string where
  "srcNamed = ''([a-z]+ ~d{1,2},?~s+~d{4})''"

definition srcSlashed :: string where
  "srcSlashed = ''(~d{1,2}[~/~-]~d{1,2}[~/~-]~d{4})''"

definition srcIso :: string where
  "srcIso = ''(~d{4}[~/~-]~d{1,2}[~/~-]~d{1,2})''"

definition mk :: "string \<Rightarrow> bool \<Rightarrow> rx \<Rightarrow> regexp" where
  "mk src ic r = \<lparr> source = unesc src, ignoreCase = ic, node = r \<rparr>"

definition pattern1 :: regexp where
  "pattern1 = mk (srcLabel @ srcNamed) True (seqs [label, qualifier, colon, named])"

definition pattern2 :: regexp where
  "pattern2 = mk (srcLabel @ srcSlashed) True (seqs [label, qualifier, colon, slashed])"

definition pattern3 :: regexp where
  "pattern3 = mk (srcLabel @ srcIso) True (seqs [label, qualifier, colon, isoish])"

definition pattern4 :: regexp where
  "pattern4 = mk (srcValid @ srcNamed) True (seqs [validUntil, colon, named])"

definition pattern5 :: regexp where
  "pattern5 = mk (srcValid @ srcSlashed) True (seqs [validUntil, colon, slashed])"

definition pattern6 :: regexp where
  "pattern6 = mk (srcValid @ srcIso) True (seqs [validUntil, colon, isoish])"

definition pattern7 :: regexp where
  "pattern7 = mk (srcExpir @ srcNamed) True (seqs [expirAny, named])"

definition pattern8 :: regexp where
  "pattern8 = mk (srcExpir @ srcSlashed) True (seqs [expirAny, slashed])"

definition pattern9 :: regexp where
  "pattern9 = mk (srcExpir @ srcIso) True (seqs [expirAny, isoish])"

definition datePatterns :: "regexp list" where
  "datePatterns = [pattern1, pattern2, pattern3, pattern4, pattern5, pattern6,
                   pattern7, pattern8, pattern9]"

subsection \<open>parseDate\<close>

text \<open>
  The three formats are tried in order. For a match the date is built by the branch that
  the tests on \<open>format.source\<close> select: the named-month branch hands a string to the host's
  parser, the branch for \<open>YYYY-MM-DD\<close> requires the source to start with the group of four
  digits (\<open>indexOf\<close> equal to 0), and
  every other match is read as month, day, year. A format whose date is invalid is passed
  over; after the last format the whole string goes to \<open>new Date\<close>. Every format has three
  groups, so the branch for another number of captures is never taken.
\<close>

definition formatNamed :: regexp where
  "formatNamed = mk ''^([a-z]+)~s+(~d{1,2}),?~s+(~d{4})$'' True
     (seqs [Bol, Group (Plus (Class (OneOf lowerAZ))), ws1, Group dig12, Opt (Lit CHR '',''),
            ws1, Group dig4, Eol])"

definition formatMDY :: regexp where
  "formatMDY = mk ''^(~d{1,2})[~/~-](~d{1,2})[~/~-](~d{4})$'' False
     (seqs [Bol, Group dig12, sep, Group dig12, sep, Group dig4, Eol])"

definition formatYMD :: regexp where
  "formatYMD = mk ''^(~d{4})[~/~-](~d{1,2})[~/~-](~d{1,2})$'' False
     (seqs [Bol, Group dig4, sep, Group dig12, sep, Group dig12, Eol])"

definition formats :: "regexp list" where
  "formats = [formatNamed, formatMDY, formatYMD]"

fun parseFormats :: "(string \<Rightarrow> int option) \<Rightarrow> string \<Rightarrow> regexp list \<Rightarrow> int option" where
  "parseFormats native cleanDateStr [] = newDateStr native cleanDateStr"
| "parseFormats native cleanDateStr (format # rest) =
     (case rx_match format cleanDateStr of
        None \<Rightarrow> parseFormats native cleanDateStr rest
      | Some (whole, groups) \<Rightarrow>
          (let date =
             (case groups of
                [g1, g2, g3] \<Rightarrow>
                  if includes_str (source format) ''([a-z]+)''
                  then newDateStr native (g1 @ '' '' @ g2 @ '', '' @ g3)
                  else if includes_str (source format) (unesc ''(~d{4})'')
                          \<and> indexOf (source format) (unesc ''(~d{4})'') = 0
                  then newDate3 (parseInt g1) (map_option (\<lambda>v. v - 1) (parseInt g2)) (parseInt g3)
                  else newDate3 (parseInt g3) (map_option (\<lambda>v. v - 1) (parseInt g1)) (parseInt g2)
              | _ \<Rightarrow> None)
           in case date of
                Some t \<Rightarrow> Some t
              | None \<Rightarrow> parseFormats native cleanDateStr rest))"

definition parseDate :: "(string \<Rightarrow> int option) \<Rightarrow> string \<Rightarrow> int option" where
  "parseDate native dateStr = parseFormats native (trim dateStr) formats"

definition isValidExpiryDate :: "int \<Rightarrow> int \<Rightarrow> bool" where
  "isValidExpiryDate now date =
     (let fiveYearsFromNow = now + (5 * 365 * 24 * 60 * 60 * 1000);
          fiveYearsAgo = now - (5 * 365 * 24 * 60 * 60 * 1000)
      in date \<ge> fiveYearsAgo \<and> date \<le> fiveYearsFromNow)"

subsection \<open>calculateConfidence\<close>

text \<open>
  The confidence is a sum of decimal fractions in binary64 arithmetic, and here the
  rounding shows in the result, so it is modelled: a number is the rational it denotes,
  \<open>rnd\<close> rounds a rational to the nearest binary64 number (ties to even; \<open>expo\<close> finds the
  binary exponent, within the normal range), a literal \<open>0.3\<close> is \<open>rnd (3 / 10)\<close> and
  \<open>a + b\<close> is \<open>rnd (a + b)\<close>. Elsewhere the arithmetic of the program is exact on the
  values it meets, or, for \<open>progressPercentage\<close>, its rounding is monotone and exact at 0
  and 100, and it is modelled exactly.
\<close>

definition pow2 :: "int \<Rightarrow> rat" where
  "pow2 e = (if 0 \<le> e then of_int (2 ^ nat e) else 1 / of_int (2 ^ nat (- e)))"

fun expo :: "nat \<Rightarrow> rat \<Rightarrow> int" where
  "expo 0 x = 0"
| "expo (Suc n) x =
     (if x < 1 then expo n (2 * x) - 1
      else if 2 \<le> x then expo n (x / 2) + 1
      else 0)"

definition roundEven :: "rat \<Rightarrow> int" where
  "roundEven q =
     (let f = \<lfloor>q\<rfloor>; r = q - of_int f
      in if r < 1 / 2 then f
         else if 1 / 2 < r then f + 1
         else if even f then f else f + 1)"

definition rnd :: "rat \<Rightarrow> rat" where
  "rnd x =
     (if x = 0 then 0
      else let e = expo 1100 \<bar>x\<bar>; u = pow2 (e - 52)
           in of_int (roundEven (x / u)) * u)"

definition fadd :: "rat \<Rightarrow> rat \<Rightarrow> rat" where
  "fadd a b = rnd (a + b)"

definition calculateConfidence :: "regexp \<Rightarrow> string \<Rightarrow> rat" where
  "calculateConfidence pattern matchedText =
     (let c0 = rnd (5 / 10);
          c1 = (if includes_str (source pattern) ''expir'' then fadd c0 (rnd (3 / 10)) else c0);
          c2 = (if includes_str (source pattern) ''valid'' then fadd c1 (rnd (2 / 10)) else c1);
          c3 = (if includes_str (source pattern) '':'' then fadd c2 (rnd (1 / 10)) else c2);
          c4 = (if includes_str (toLowerCase matchedText) ''expiry date''
                then fadd c3 (rnd (2 / 10)) else c3);
          c5 = (if includes_str (toLowerCase matchedText) ''valid until''
                then fadd c4 (rnd (2 / 10)) else c4);
          c6 = (if includes_str (toLowerCase matchedText) ''expires''
                then fadd c5 (rnd (15 / 100)) else c5)
      in min c6 (rnd (95 / 100)))"

subsection \<open>extractExpiryDate\<close>

text \<open>
  The loop over the pattern table: the first pattern whose leftmost match gives a capture
  that \<open>parseDate\<close> accepts and \<open>isValidExpiryDate\<close> finds plausible decides the result.
  Every pattern has one group, which takes part in every match, so the branch for a match
  without a capture is never taken.
\<close>

record extraction =
  date :: "int option"
  confidence :: rat

fun extractLoop ::
  "(string \<Rightarrow> int option) \<Rightarrow> int \<Rightarrow> string \<Rightarrow> regexp list \<Rightarrow> extraction" where
  "extractLoop native now cleanText [] = \<lparr> date = None, confidence = 0 \<rparr>"
| "extractLoop native now cleanText (pattern # rest) =
     (case rx_match pattern cleanText of
        None \<Rightarrow> extractLoop native now cleanText rest
      | Some (whole, groups) \<Rightarrow>
          (case groups of
             [] \<Rightarrow> extractLoop native now cleanText rest
           | dateStr # _ \<Rightarrow>
               (case parseDate native dateStr of
                  None \<Rightarrow> extractLoop native now cleanText rest
                | Some parsedDate \<Rightarrow>
                    if isValidExpiryDate now parsedDate
                    then \<lparr> date = Some parsedDate,
                           confidence = calculateConfidence pattern whole \<rparr>
                    else extractLoop native now cleanText rest)))"

definition extractExpiryDate :: "(string \<Rightarrow> int option) \<Rightarrow> int \<Rightarrow> string \<Rightarrow> extraction" where
  "extractExpiryDate native now text =
     (let cleanText = trim (collapse text)
      in extractLoop native now cleanText datePatterns)"

section \<open>toDate of the shared schema\<close>

text \<open>
  \<open>toDate\<close> receives a string or a \<open>Date\<close> (the schema admits nothing else) and returns
  a \<open>Date\<close>, possibly an invalid one. Its first two layouts are day, month, year with two
  slashes or two dashes; it rebuilds the string \<open>yyyy-mm-ddT00:00:00\<close> and hands it to
  \<open>new Date\<close>, a second time with \<open>Z\<close> appended when the first result is invalid.
\<close>

datatype jsval = StrVal string | DateVal "int option"

definition dmY :: regexp where
  "dmY = mk ''^(~d{2})~/(~d{2})~/(~d{4})$'' False
     (seqs [Bol, Group dig2, Lit CHR ''/'', Group dig2, Lit CHR ''/'', Group dig4, Eol])"

definition dmYdash :: regexp where
  "dmYdash = mk ''^(~d{2})-(~d{2})-(~d{4})$'' False
     (seqs [Bol, Group dig2, Lit CHR ''-'', Group dig2, Lit CHR ''-'', Group dig4, Eol])"

definition ymd :: regexp where
  "ymd = mk ''^~d{4}-~d{2}-~d{2}$'' False
     (seqs [Bol, dig4, Lit CHR ''-'', dig2, Lit CHR ''-'', dig2, Eol])"

definition ymdhms :: regexp where
  "ymdhms = mk ''^~d{4}-~d{2}-~d{2} ~d{2}:~d{2}:~d{2}$'' False
     (seqs [Bol, dig4, Lit CHR ''-'', dig2, Lit CHR ''-'', dig2, Lit CHR 0x20,
            dig2, Lit CHR '':'', dig2, Lit CHR '':'', dig2, Eol])"

fun replaceFirst :: "char \<Rightarrow> char \<Rightarrow> string \<Rightarrow> string" where
  "replaceFirst a b [] = []"
| "replaceFirst a b (c # cs) = (if c = a then b # cs else c # replaceFirst a b cs)"

definition twoTries :: "(string \<Rightarrow> int option) \<Rightarrow> string \<Rightarrow> int option" where
  "twoTries native isoStr =
     (case newDateStr native isoStr of
        Some t \<Rightarrow> Some t
      | None \<Rightarrow> newDateStr native (isoStr @ ''Z''))"

definition dmyIso :: "(string \<times> string list) option \<Rightarrow> string option" where
  "dmyIso mt =
     (case mt of
        Some (whole, [dd, mm, yyyy]) \<Rightarrow> Some (yyyy @ ''-'' @ mm @ ''-'' @ dd @ ''T00:00:00'')
      | _ \<Rightarrow> None)"

definition toDate :: "(string \<Rightarrow> int option) \<Rightarrow> jsval \<Rightarrow> int option" where
  "toDate native val =
     (case val of
        DateVal d \<Rightarrow> d
      | StrVal v \<Rightarrow>
          (let str = trim v
           in case dmyIso (rx_match dmY str) of
                Some isoStr \<Rightarrow> twoTries native isoStr
              | None \<Rightarrow>
                 (case dmyIso (rx_match dmYdash str) of
                    Some isoStr \<Rightarrow> twoTries native isoStr
                  | None \<Rightarrow>
                      if rx_test ymd str then twoTries native (str @ ''T00:00:00'')
                      else if rx_test ymdhms str
                      then twoTries native (replaceFirst (CHR 0x20) (CHR ''T'') str)
                      else twoTries native str)))"

section \<open>The client's classification\<close>

text \<open>
  \<open>getCertificateStatus\<close> (client/src/lib/date-utils.ts), \<open>SubscriptionCard\<close> and the
  certificate components compute the day count with \<open>differenceInDays\<close> and the expiry flag
  with \<open>isPast\<close>, both of the date-fns library, which is not part of the repository. They
  are modelled from the library: \<open>differenceInDays\<close> is its number of full days, where a
  full day runs from a local time on one day to the same local time on the next, so that the
  result depends on the time zone of the browser. The model follows the library's steps:
  the sign from the comparison of the local fields, the number of local calendar days
  between the two local midnights, the left date moved back by that many calendar days with
  \<open>setDate\<close>, and one day less when the moved date has passed the right one.

  The zone of the browser is a parameter \<open>z\<close>, the \<open>LocalTZA\<close> of the ECMAScript
  specification: \<open>z t True\<close> is the offset of local time at the instant \<open>t\<close>, and
  \<open>z t False\<close> is the offset at the local time value \<open>t\<close>. \<open>fixedZone\<close> is a zone with
  one offset throughout (\<open>fixedZone 0\<close> is UTC), \<open>switchZone\<close> a zone that changes its offset
  once, at the instant \<open>change\<close>; a local time that the change skips or repeats is read with the
  offset before the change, as the specification says. Time values stay far inside the range
  of a valid \<open>Date\<close> here, and \<open>TimeClip\<close> is left out.
\<close>

type_synonym zone = "int \<Rightarrow> bool \<Rightarrow> int"

definition fixedZone :: "int \<Rightarrow> zone" where
  "fixedZone off = (\<lambda>t isUTC. off)"

definition switchZone :: "int \<Rightarrow> int \<Rightarrow> int \<Rightarrow> zone" where
  "switchZone change before after =
     (\<lambda>t isUTC.
        if isUTC then (if t < change then before else after)
        else (if t - before < change \<or> t - after < change then before else after))"

definition LocalTime :: "zone \<Rightarrow> int \<Rightarrow> int" where
  "LocalTime z t = t + z t True"

definition UTC :: "zone \<Rightarrow> int \<Rightarrow> int" where
  "UTC z t = t - z t False"

definition localFields :: "zone \<Rightarrow> instant \<Rightarrow> int list" where
  "localFields z t =
     (let l = LocalTime z t; dayNo = l div msPerDay
      in [YearFromDay dayNo, MonthFromDay dayNo, DateFromDay dayNo,
          (l div 3600000) mod 24, (l div 60000) mod 60, (l div 1000) mod 60, l mod 1000])"

fun firstNonzero :: "int list \<Rightarrow> int" where
  "firstNonzero [] = 0"
| "firstNonzero (x # xs) = (if x \<noteq> 0 then x else firstNonzero xs)"

definition compareLocalAsc :: "zone \<Rightarrow> instant \<Rightarrow> instant \<Rightarrow> int" where
  "compareLocalAsc z dateLeft dateRight =
     (let diff = firstNonzero (map (\<lambda>(l, r). l - r)
                   (zip (localFields z dateLeft) (localFields z dateRight)))
      in if diff < 0 then - 1 else if diff > 0 then 1 else diff)"

definition startOfDay :: "zone \<Rightarrow> instant \<Rightarrow> instant" where
  "startOfDay z t = UTC z ((LocalTime z t div msPerDay) * msPerDay)"

definition getTimezoneOffsetInMilliseconds :: "zone \<Rightarrow> instant \<Rightarrow> int" where
  "getTimezoneOffsetInMilliseconds z t = t - LocalTime z t"

definition mathRound :: "int \<Rightarrow> int \<Rightarrow> int" where
  "mathRound a b = (2 * a + b) div (2 * b)"

definition differenceInCalendarDays :: "zone \<Rightarrow> instant \<Rightarrow> instant \<Rightarrow> int" where
  "differenceInCalendarDays z dateLeft dateRight =
     (let startOfDayLeft = startOfDay z dateLeft;
          startOfDayRight = startOfDay z dateRight;
          timestampLeft = startOfDayLeft - getTimezoneOffsetInMilliseconds z startOfDayLeft;
          timestampRight = startOfDayRight - getTimezoneOffsetInMilliseconds z startOfDayRight
      in mathRound (timestampLeft - timestampRight) msPerDay)"

definition setDate :: "zone \<Rightarrow> instant \<Rightarrow> int \<Rightarrow> instant" where
  "setDate z t dt =
     (let l = LocalTime z t; dayNo = l div msPerDay
      in UTC z (MakeDay (YearFromDay dayNo) (MonthFromDay dayNo) dt * msPerDay
                + l mod msPerDay))"

definition differenceInDays :: "zone \<Rightarrow> instant \<Rightarrow> instant \<Rightarrow> int" where
  "differenceInDays z dateLeft dateRight =
     (let sign = compareLocalAsc z dateLeft dateRight;
          difference = \<bar>differenceInCalendarDays z dateLeft dateRight\<bar>;
          moved = setDate z dateLeft
                    (DateFromDay (LocalTime z dateLeft div msPerDay) - sign * difference);
          isLastDayNotFull = (if compareLocalAsc z moved dateRight = - sign then 1 else 0)
      in sign * (difference - isLastDayNotFull))"

definition isPast :: "instant \<Rightarrow> instant \<Rightarrow> bool" where
  "isPast now dateArg = (dateArg < now)"

datatype status = Expired | Expiring | Valid

record certificateStatus =
  cs_status :: status
  cs_days :: int

definition getCertificateStatus :: "zone \<Rightarrow> instant \<Rightarrow> instant \<Rightarrow> certificateStatus" where
  "getCertificateStatus z now expiryDate =
     (let isExp = isPast now expiryDate;
          daysUntilExpiry = differenceInDays z expiryDate now;
          isExpiringSoon = (\<not> isExp \<and> daysUntilExpiry \<le> 30)
      in if isExp then \<lparr> cs_status = Expired, cs_days = \<bar>daysUntilExpiry\<bar> \<rparr>
         else if isExpiringSoon then \<lparr> cs_status = Expiring, cs_days = daysUntilExpiry \<rparr>
         else \<lparr> cs_status = Valid, cs_days = daysUntilExpiry \<rparr>)"

section \<open>Notions used in the statements\<close>

text \<open>
  \<open>isoOnlyHost\<close> is a host whose \<open>Date\<close> constructor gives an Invalid Date for every
  string outside the format that ECMAScript fixes, as the specification allows.
  \<open>accepted\<close> says that a pattern yields an accepted result on a text. \<open>sourceScore\<close> and
  \<open>textScore\<close> are the two halves of \<open>calculateConfidence\<close>.
\<close>

definition isoOnlyHost :: "string \<Rightarrow> int option" where
  "isoOnlyHost s = None"

definition accepted :: "(string \<Rightarrow> int option) \<Rightarrow> int \<Rightarrow> string \<Rightarrow> regexp \<Rightarrow> bool" where
  "accepted native now cleanText pattern =
     (case rx_match pattern cleanText of
        None \<Rightarrow> False
      | Some (whole, groups) \<Rightarrow>
          (case groups of
             [] \<Rightarrow> False
           | dateStr # _ \<Rightarrow>
               (case parseDate native dateStr of
                  None \<Rightarrow> False
                | Some parsedDate \<Rightarrow> isValidExpiryDate now parsedDate)))"

definition sourceScore :: "regexp \<Rightarrow> rat" where
  "sourceScore pattern =
     (let c0 = rnd (5 / 10);
          c1 = (if includes_str (source pattern) ''expir'' then fadd c0 (rnd (3 / 10)) else c0);
          c2 = (if includes_str (source pattern) ''valid'' then fadd c1 (rnd (2 / 10)) else c1)
      in if includes_str (source pattern) '':'' then fadd c2 (rnd (1 / 10)) else c2)"

definition textScore :: "rat \<Rightarrow> bool \<Rightarrow> bool \<Rightarrow> bool \<Rightarrow> rat" where
  "textScore c3 hasExpiryDate hasValidUntil hasExpires =
     (let c4 = (if hasExpiryDate then fadd c3 (rnd (2 / 10)) else c3);
          c5 = (if hasValidUntil then fadd c4 (rnd (2 / 10)) else c4);
          c6 = (if hasExpires then fadd c5 (rnd (15 / 100)) else c5)
      in min c6 (rnd (95 / 100)))"

section \<open>Properties of the status arithmetic\<close>

lemma ceiling_days_int:
  "\<lceil>real_of_int t / real_of_int msPerDay\<rceil> = - ((- t) div msPerDay)"
  by (simp only: ceiling_divide_eq_div)

lemma calculateDaysUntilExpiry_int:
  "calculateDaysUntilExpiry now e = - ((now - e) div msPerDay)"
  by (simp add: calculateDaysUntilExpiry_def Let_def ceiling_days_int)

lemma subscriptionDerived_fields:
  "d_isExpired (subscriptionDerived now e) = isExpired now e"
  "d_daysUntilExpiry (subscriptionDerived now e) = calculateDaysUntilExpiry now e"
  "d_progressPercentage (subscriptionDerived now e) =
     progressPercentage (calculateDaysUntilExpiry now e)"
  by (simp_all add: subscriptionDerived_def calculateDaysUntilExpiry_def isExpired_def Let_def)

lemma days_negative_iff:
  "calculateDaysUntilExpiry now e < 0 \<longleftrightarrow> msPerDay \<le> now - e"
proof -
  have pos: "0 < msPerDay" by (simp add: msPerDay_def)
  have "calculateDaysUntilExpiry now e < 0 \<longleftrightarrow> 0 < (now - e) div msPerDay"
    by (simp add: calculateDaysUntilExpiry_int)
  also have "\<dots> \<longleftrightarrow> msPerDay \<le> now - e"
    using pos by (simp add: pos_imp_zdiv_pos_iff)
  finally show ?thesis .
qed

lemma days_nonpos_if_expired:
  assumes "isExpired now e"
  shows "calculateDaysUntilExpiry now e \<le> 0"
proof -
  have "0 \<le> now - e" using assms by (simp add: isExpired_def)
  then have "0 \<le> (now - e) div msPerDay"
    by (simp add: msPerDay_def pos_imp_zdiv_nonneg_iff)
  then show ?thesis by (simp add: calculateDaysUntilExpiry_int)
qed

text \<open>
  C1 (as stated): a record is marked expired exactly when its day count is negative.
  One millisecond after the expiry instant the record is expired while
  \<open>Math.ceil(-1 / 86400000)\<close> is zero, so the equivalence fails in that direction.
\<close>

theorem C1_expired_with_zero_days:
  "d_isExpired (subscriptionDerived 1 0) \<and> \<not> d_daysUntilExpiry (subscriptionDerived 1 0) < 0
   \<and> isExpired 1 0 \<and> calculateDaysUntilExpiry 1 0 = 0"
  by (simp add: subscriptionDerived_fields isExpired_def calculateDaysUntilExpiry_int msPerDay_def)

text \<open>
  C1 (amended): a negative day count implies expired, expired implies a day count of at
  most zero, the flag is exactly "expiry before now", and the day count is negative exactly
  when the expiry instant lies a whole day or more in the past. \<open>enrichSubscription\<close>
  returns these same two values.
\<close>

theorem C1_expired_days_relation:
  "(calculateDaysUntilExpiry now e < 0 \<longrightarrow> isExpired now e)
   \<and> (isExpired now e \<longrightarrow> calculateDaysUntilExpiry now e \<le> 0)
   \<and> (isExpired now e \<longleftrightarrow> e - now < 0)
   \<and> (calculateDaysUntilExpiry now e < 0 \<longleftrightarrow> msPerDay \<le> now - e)
   \<and> d_isExpired (subscriptionDerived now e) = isExpired now e
   \<and> d_daysUntilExpiry (subscriptionDerived now e) = calculateDaysUntilExpiry now e"
proof -
  have "calculateDaysUntilExpiry now e < 0 \<longrightarrow> isExpired now e"
    by (simp add: days_negative_iff isExpired_def msPerDay_def)
  moreover have "isExpired now e \<longrightarrow> calculateDaysUntilExpiry now e \<le> 0"
    by (simp add: days_nonpos_if_expired)
  moreover have "isExpired now e \<longleftrightarrow> e - now < 0"
    by (simp add: isExpired_def)
  ultimately show ?thesis
    by (simp add: days_negative_iff subscriptionDerived_fields)
qed

theorem C1_expired_days_relation_witness:
  "calculateDaysUntilExpiry 172800000 0 < 0 \<and> isExpired 172800000 0
   \<and> calculateDaysUntilExpiry 172800000 0 \<le> 0
   \<and> d_isExpired (subscriptionDerived 172800000 0)"
  using C1_expired_days_relation [of 172800000 0]
  by (simp add: isExpired_def msPerDay_def)

subsection \<open>Progress percentage\<close>

lemma progressPercentage_antimono:
  assumes "d1 \<le> d2"
  shows "progressPercentage d2 \<le> progressPercentage d1"
proof -
  have "real_of_int (totalDays - d2) \<le> real_of_int (totalDays - d1)"
    using assms by simp
  then have "real_of_int (totalDays - d2) / real_of_int totalDays * 100
             \<le> real_of_int (totalDays - d1) / real_of_int totalDays * 100"
    by (simp add: totalDays_def divide_right_mono)
  then show ?thesis
    unfolding progressPercentage_def by (intro max.mono min.mono order_refl)
qed

lemma progressPercentage_above:
  assumes "totalDays \<le> d"
  shows "progressPercentage d = 0"
proof -
  have "real_of_int (totalDays - d) \<le> 0" using assms by simp
  then have "real_of_int (totalDays - d) / real_of_int totalDays * 100 \<le> 0"
    by (simp add: totalDays_def divide_le_0_iff mult_le_0_iff)
  then show ?thesis by (simp add: progressPercentage_def)
qed

lemma progressPercentage_below:
  assumes "d \<le> 0"
  shows "progressPercentage d = 100"
proof -
  define x where "x = real_of_int (totalDays - d) / real_of_int totalDays"
  have "real_of_int totalDays \<le> real_of_int (totalDays - d)" using assms by simp
  then have "1 \<le> x"
    unfolding x_def by (simp add: totalDays_def)
  then have "100 \<le> x * 100" by simp
  then have "max 0 (min 100 (x * 100)) = 100" by simp
  then show ?thesis unfolding progressPercentage_def x_def .
qed

lemma progressPercentage_range:
  "0 \<le> progressPercentage d \<and> progressPercentage d \<le> 100"
  by (simp add: progressPercentage_def)

text \<open>
  C4: within 0..365 days left, progressPercentage does not increase as daysUntilExpiry
  decreases: in the words of the comment above the formula in both copies of
  \<open>enrichSubscription\<close>, "0% = expired, 100% = just started". The formula beneath that
  comment runs the other way. A subscription that ends at the instant of the reading
  (0 days left) gets 100, one that ends 365 days later gets 0, and one with 100 days left
  gets more than one with 200 days left.
\<close>

theorem C4_progress_grows_as_days_shrink:
  "progressPercentage 0 = 100 \<and> progressPercentage 365 = 0
   \<and> progressPercentage 365 < progressPercentage 0
   \<and> progressPercentage 200 < progressPercentage 100
   \<and> d_daysUntilExpiry (subscriptionDerived 1793664000000 1793664000000) = 0
   \<and> d_isExpired (subscriptionDerived 1793664000000 1793664000000) = False
   \<and> d_progressPercentage (subscriptionDerived 1793664000000 1793664000000) = 100
   \<and> d_daysUntilExpiry (subscriptionDerived 1793664000000 1825200000000) = 365
   \<and> d_progressPercentage (subscriptionDerived 1793664000000 1825200000000) = 0"
  by (simp add: subscriptionDerived_fields calculateDaysUntilExpiry_int isExpired_def
      progressPercentage_def totalDays_def msPerDay_def)

subsection \<open>Rounding of the day count\<close>

text \<open>
  The library's day count on a day with a clock change: in a zone that goes from UTC-4 to
  UTC-5 on 1 November 2026 at 06:00 UTC, local midnight of that day and 23:00 of the same
  local day are 24 hours apart and no full day apart; in a zone that goes from UTC-5 to
  UTC-4 on 8 March 2026 at 07:00 UTC, 01:30 on that day and 01:30 on the next are 23 hours
  and one full day apart.
\<close>

lemma differenceInDays_clock_change:
  "differenceInDays (switchZone 1793512800000 (- 14400000) (- 18000000))
     1793592000000 1793505600000 = 0"
  "1793592000000 - 1793505600000 = msPerDay"
  "differenceInDays (switchZone 1772953200000 (- 18000000) (- 14400000))
     1773034200000 1772951400000 = 1"
  "1773034200000 - 1772951400000 = (23 * 3600000 :: int)"
  by code_simp+

text \<open>
  C6: for an expiry instant later than now, daysUntilExpiry is the ceiling of the
  fractional day count on every classification path, so that 23.1 hours (83160000 ms) give
  1 and not 0. The storage layer does so. The client's paths (\<open>getCertificateStatus\<close>, and
  the same two lines in \<open>SubscriptionCard\<close>) count full days: with the clock at
  3 November 2026, 00:00 UTC (1793664000000), an expiry 23.1 hours later gets 1 from the
  storage layer and 0 from the client, in a browser at UTC, at UTC-5 and at UTC+5:30.
\<close>

theorem C6_client_truncates:
  "calculateDaysUntilExpiry 1793664000000 (1793664000000 + 83160000) = 1
   \<and> d_daysUntilExpiry (subscriptionDerived 1793664000000 (1793664000000 + 83160000)) = 1
   \<and> getCertificateStatus (fixedZone 0) 1793664000000 (1793664000000 + 83160000)
       = \<lparr> cs_status = Expiring, cs_days = 0 \<rparr>
   \<and> getCertificateStatus (fixedZone (- 18000000)) 1793664000000 (1793664000000 + 83160000)
       = \<lparr> cs_status = Expiring, cs_days = 0 \<rparr>
   \<and> getCertificateStatus (fixedZone 19800000) 1793664000000 (1793664000000 + 83160000)
       = \<lparr> cs_status = Expiring, cs_days = 0 \<rparr>"
  by code_simp

section \<open>Reads of the storage layer\<close>

lemma enrichCertificate_fresh:
  "c_isExpired (enrichCertificate now r) = isExpired now (c_expiryDate r)"
  "c_daysUntilExpiry (enrichCertificate now r) = calculateDaysUntilExpiry now (c_expiryDate r)"
  "c_expiryDate (enrichCertificate now r) = c_expiryDate r"
  by (simp_all add: enrichCertificate_def)

lemma enrichSubscription_fresh:
  "s_isExpired (enrichSubscription now r) = isExpired now (s_endDate r)"
  "s_daysUntilExpiry (enrichSubscription now r) = calculateDaysUntilExpiry now (s_endDate r)"
  "s_progressPercentage (enrichSubscription now r)
     = progressPercentage (calculateDaysUntilExpiry now (s_endDate r))"
  "s_endDate (enrichSubscription now r) = s_endDate r"
  by (simp_all add: enrichSubscription_def Let_def subscriptionDerived_fields)

lemma pg_getCertificate_fresh:
  assumes "pg_getCertificate now db ident = Some c"
  shows "freshCertificate now c"
  using assms
  by (auto simp: pg_getCertificate_def freshCertificate_def enrichCertificate_fresh
      split: list.splits)

lemma pg_getCertificates_fresh:
  assumes "c \<in> set (pg_getCertificates now dbNow db params)"
  shows "freshCertificate now c"
  using assms
  by (auto simp: pg_getCertificates_def Let_def freshCertificate_def enrichCertificate_fresh)

lemma pg_searchCertificates_fresh:
  assumes "c \<in> set (pg_searchCertificates ilike now dbNow db q)"
  shows "freshCertificate now c"
proof (cases "trim q = []")
  case True
  then show ?thesis
    using assms pg_getCertificates_fresh by (simp add: pg_searchCertificates_def)
next
  case False
  then show ?thesis
    using assms
    by (auto simp: pg_searchCertificates_def Let_def freshCertificate_def enrichCertificate_fresh)
qed

text \<open>
  C5: every read returns derived fields recomputed from the stored expiry instant and the
  clock at read time. \<open>PostgreSQLStorage\<close> does so on each read (the three lemmas
  above). \<open>InMemoryStorage\<close> returns the object enriched when it was created: a
  certificate created at instant 0 that expires one day later is still returned two days
  later (and at any time) with \<open>isExpired = false\<close> and \<open>daysUntilExpiry = 1\<close>, where a
  recomputation at that time gives \<open>true\<close> and \<open>-1\<close>; the same holds for subscriptions.
\<close>

theorem C5_inmemory_reads_are_stale:
  "map_option (\<lambda>c. (c_isExpired c, c_daysUntilExpiry c))
     (mem_getCertificate
        (snd (mem_createCertificate 0 ''id1''
           \<lparr> ic_name = ''n'', ic_issuer = None, ic_expiryDate = 86400000, ic_fileName = ''f'',
             ic_fileSize = 1, ic_filePath = ''p'', ic_ocrText = None \<rparr>
           \<lparr> items = [], subscriptionItems = [] \<rparr>))
        ''id1'')
   = Some (False, 1)
   \<and> (isExpired 172800000 86400000, calculateDaysUntilExpiry 172800000 86400000) = (True, -1)
   \<and> map (\<lambda>c. (s_isExpired c, s_daysUntilExpiry c, s_progressPercentage c))
       (mem_getSubscriptions
          (snd (mem_createSubscription 0 ''id2''
             \<lparr> is_title = ''t'', is_email = ''e'', is_cardTitle = ''c'', is_endDate = 86400000,
               is_amount = 1 \<rparr>
             \<lparr> items = [], subscriptionItems = [] \<rparr>)))
     = [(False, 1, progressPercentage 1)]
   \<and> d_isExpired (subscriptionDerived 172800000 86400000)
   \<and> d_daysUntilExpiry (subscriptionDerived 172800000 86400000) = -1"
  by (simp add: mem_getCertificate_def mem_createCertificate_def mem_getSubscriptions_def
      mem_createSubscription_def Let_def enrichCertificate_def enrichSubscription_def
      subscriptionDerived_fields isExpired_def calculateDaysUntilExpiry_int msPerDay_def)

section \<open>The calendar\<close>

lemma div_succ:
  fixes x n :: int
  assumes "0 < n"
  shows "(x + 1) div n = x div n + (if (x + 1) mod n = 0 then 1 else 0)"
proof (cases "x mod n = n - 1")
  case True
  have e: "n * (x div n) + x mod n = x" by (rule mult_div_mod_eq)
  have "x + 1 = n * (x div n) + (n - 1) + 1" using e True by simp
  then have f: "x + 1 = (x div n + 1) * n" by (simp add: algebra_simps)
  have "(x + 1) div n = x div n + 1"
    unfolding f using assms by simp
  moreover have "(x + 1) mod n = 0"
    unfolding f by simp
  ultimately show ?thesis by simp
next
  case False
  have r: "0 \<le> x mod n" "x mod n < n" using assms by simp_all
  have x: "x + 1 = n * (x div n) + (x mod n + 1)" by simp
  have lt: "x mod n + 1 < n" using False r by simp
  have "(x + 1) div n = x div n"
    by (rule int_div_pos_eq [OF x]) (use r lt in simp_all)
  moreover have "(x + 1) mod n = x mod n + 1"
    by (rule int_mod_pos_eq [OF x]) (use r lt in simp_all)
  ultimately show ?thesis using r by simp
qed

lemma mod4_shift: "(y - 1968) mod 4 = (y::int) mod 4"
proof -
  have "(y - 1968) mod 4 = (y + 4 * (- 492)) mod 4" by simp
  also have "\<dots> = y mod 4" by (rule mod_mult_self2)
  finally show ?thesis .
qed

lemma mod100_shift: "(y - 1900) mod 100 = (y::int) mod 100"
proof -
  have "(y - 1900) mod 100 = (y + 100 * (- 19)) mod 100" by simp
  also have "\<dots> = y mod 100" by (rule mod_mult_self2)
  finally show ?thesis .
qed

lemma mod400_shift: "(y - 1600) mod 400 = (y::int) mod 400"
proof -
  have "(y - 1600) mod 400 = (y + 400 * (- 4)) mod 400" by simp
  also have "\<dots> = y mod 400" by (rule mod_mult_self2)
  finally show ?thesis .
qed

lemma mod400_100: "(y::int) mod 400 = 0 \<Longrightarrow> y mod 100 = 0"
proof -
  assume "y mod 400 = 0"
  then have "400 dvd y" by (simp add: mod_eq_0_iff_dvd)
  moreover have "(100::int) dvd 400" by simp
  ultimately have "100 dvd y" by (rule dvd_trans [rotated])
  then show ?thesis by (simp add: mod_eq_0_iff_dvd)
qed

lemma mod100_4: "(y::int) mod 100 = 0 \<Longrightarrow> y mod 4 = 0"
proof -
  assume "y mod 100 = 0"
  then have "100 dvd y" by (simp add: mod_eq_0_iff_dvd)
  moreover have "(4::int) dvd 100" by simp
  ultimately have "4 dvd y" by (rule dvd_trans [rotated])
  then show ?thesis by (simp add: mod_eq_0_iff_dvd)
qed

lemma DayFromYear_bounds:
  "146097 * (y - 1970) - 506 \<le> 400 * DayFromYear y"
  "400 * DayFromYear y \<le> 146097 * (y - 1970) + 589"
proof -
  define a where "a = (y - 1969) div 4"
  define b where "b = (y - 1901) div 100"
  define c where "c = (y - 1601) div 400"
  have a: "4 * a \<le> y - 1969" "y - 1969 \<le> 4 * a + 3"
    unfolding a_def by simp_all
  have b: "100 * b \<le> y - 1901" "y - 1901 \<le> 100 * b + 99"
    unfolding b_def by simp_all
  have c: "400 * c \<le> y - 1601" "y - 1601 \<le> 400 * c + 399"
    unfolding c_def by simp_all
  have d: "DayFromYear y = 365 * (y - 1970) + a - b + c"
    by (simp add: DayFromYear_def a_def b_def c_def)
  have e: "400 * DayFromYear y = 146000 * (y - 1970) + 100 * (4 * a) - 4 * (100 * b) + 400 * c"
    unfolding d by simp
  show "146097 * (y - 1970) - 506 \<le> 400 * DayFromYear y"
    unfolding e using a b c by (simp add: algebra_simps)
  show "400 * DayFromYear y \<le> 146097 * (y - 1970) + 589"
    unfolding e using a b c by (simp add: algebra_simps)
qed

lemma DayFromYear_step: "DayFromYear (y + 1) = DayFromYear y + DaysInYear y"
proof -
  have a: "(y - 1968) div 4 = (y - 1969) div 4 + (if y mod 4 = 0 then 1 else 0)"
  proof -
    have "y - 1969 + 1 = y - 1968" by simp
    then show ?thesis
      using div_succ [of 4 "y - 1969"] mod4_shift [of y] by simp
  qed
  have b: "(y - 1900) div 100 = (y - 1901) div 100 + (if y mod 100 = 0 then 1 else 0)"
  proof -
    have "y - 1901 + 1 = y - 1900" by simp
    then show ?thesis
      using div_succ [of 100 "y - 1901"] mod100_shift [of y] by simp
  qed
  have c: "(y - 1600) div 400 = (y - 1601) div 400 + (if y mod 400 = 0 then 1 else 0)"
  proof -
    have "y - 1601 + 1 = y - 1600" by simp
    then show ?thesis
      using div_succ [of 400 "y - 1601"] mod400_shift [of y] by simp
  qed
  have d: "DayFromYear (y + 1) =
    365 * (y - 1969) + (y - 1968) div 4 - (y - 1900) div 100 + (y - 1600) div 400"
    by (simp add: DayFromYear_def)
  define A where "A = (y - 1969) div 4"
  define B where "B = (y - 1901) div 100"
  define C where "C = (y - 1601) div 400"
  have e: "DayFromYear y = 365 * (y - 1970) + A - B + C"
    by (simp add: DayFromYear_def A_def B_def C_def)
  have f: "DayFromYear (y + 1) = 365 * (y - 1969)
      + (A + (if y mod 4 = 0 then 1 else 0))
      - (B + (if y mod 100 = 0 then 1 else 0))
      + (C + (if y mod 400 = 0 then 1 else 0))"
    unfolding d a b c A_def B_def C_def by (rule refl)
  consider (n4) "y mod 4 \<noteq> 0" | (n100) "y mod 4 = 0" "y mod 100 \<noteq> 0"
    | (n400) "y mod 4 = 0" "y mod 100 = 0" "y mod 400 \<noteq> 0"
    | (y400) "y mod 4 = 0" "y mod 100 = 0" "y mod 400 = 0"
    by argo
  then show ?thesis
  proof cases
    case n4
    then have "y mod 100 \<noteq> 0" using mod100_4 [of y] by argo
    moreover from this have "y mod 400 \<noteq> 0" using mod400_100 [of y] by argo
    ultimately show ?thesis
      unfolding f e DaysInYear_def InLeapYear_def using n4 by simp
  next
    case n100
    then have "y mod 400 \<noteq> 0" using mod400_100 [of y] by argo
    then show ?thesis
      unfolding f e DaysInYear_def InLeapYear_def using n100 by simp
  next
    case n400
    then show ?thesis
      unfolding f e DaysInYear_def InLeapYear_def by simp
  next
    case y400
    then show ?thesis
      unfolding f e DaysInYear_def InLeapYear_def by simp
  qed
qed

lemma DayFromYear_strict_mono:
  assumes "y < y'"
  shows "DayFromYear y < DayFromYear y'"
proof -
  have "146097 * (y - 1970) + 146097 \<le> 146097 * (y' - 1970)"
    using assms by simp
  then have "400 * DayFromYear y < 400 * DayFromYear y'"
    using DayFromYear_bounds(2) [of y] DayFromYear_bounds(1) [of y'] by linarith
  then show ?thesis by simp
qed

lemma DayFromYear_mono: "y \<le> y' \<Longrightarrow> DayFromYear y \<le> DayFromYear y'"
  using DayFromYear_strict_mono [of y y'] by (cases "y = y'") simp_all

lemma YearFromDay_spec:
  "DayFromYear (YearFromDay d) \<le> d \<and> d < DayFromYear (YearFromDay d + 1)"
proof -
  define q where "q = (400 * d) div 146097"
  have q: "146097 * q \<le> 400 * d" "400 * d < 146097 * q + 146097"
    unfolding q_def by simp_all
  have lo: "DayFromYear (1970 + q - 1) \<le> d"
  proof -
    have "400 * DayFromYear (1970 + q - 1) \<le> 400 * d"
      using DayFromYear_bounds(2) [of "1970 + q - 1"] q by simp
    then show ?thesis by simp
  qed
  have hi: "d < DayFromYear (1970 + q + 2)"
  proof -
    have "400 * d < 400 * DayFromYear (1970 + q + 2)"
      using DayFromYear_bounds(1) [of "1970 + q + 2"] q by simp
    then show ?thesis by simp
  qed
  have e: "1970 + q + 1 + 1 = 1970 + q + 2" "1970 + q - 1 + 1 = 1970 + q" by simp_all
  show ?thesis
    unfolding YearFromDay_def Let_def q_def [symmetric]
    using lo hi by (auto simp: e)
qed

lemma YearFromDay_unique:
  assumes "DayFromYear y \<le> d" "d < DayFromYear (y + 1)"
  shows "YearFromDay d = y"
proof (rule ccontr)
  assume ne: "YearFromDay d \<noteq> y"
  have s: "DayFromYear (YearFromDay d) \<le> d" "d < DayFromYear (YearFromDay d + 1)"
    using YearFromDay_spec [of d] by simp_all
  show False
  proof (cases "YearFromDay d < y")
    case True
    then have "DayFromYear (YearFromDay d + 1) \<le> DayFromYear y"
      by (intro DayFromYear_mono) simp
    then show False using s assms by simp
  next
    case False
    then have "DayFromYear (y + 1) \<le> DayFromYear (YearFromDay d)"
      using ne by (intro DayFromYear_mono) simp
    then show False using s assms by simp
  qed
qed

lemma month_cases:
  fixes mn :: int
  assumes "0 \<le> mn" "mn < 12"
  shows "mn = 0 \<or> mn = 1 \<or> mn = 2 \<or> mn = 3 \<or> mn = 4 \<or> mn = 5 \<or> mn = 6 \<or> mn = 7
        \<or> mn = 8 \<or> mn = 9 \<or> mn = 10 \<or> mn = 11"
  using assms by arith

lemma monthStart_simps:
  "monthStart l 0 = 0" "monthStart l 1 = 31" "monthStart l 2 = 59 + leapOffset l"
  "monthStart l 3 = 90 + leapOffset l" "monthStart l 4 = 120 + leapOffset l"
  "monthStart l 5 = 151 + leapOffset l" "monthStart l 6 = 181 + leapOffset l"
  "monthStart l 7 = 212 + leapOffset l" "monthStart l 8 = 243 + leapOffset l"
  "monthStart l 9 = 273 + leapOffset l" "monthStart l 10 = 304 + leapOffset l"
  "monthStart l 11 = 334 + leapOffset l"
  by (simp_all add: monthStart_def)

lemma DaysInMonth_simps:
  "DaysInMonth y 0 = 31" "DaysInMonth y 1 = 28 + leapOffset (InLeapYear y)"
  "DaysInMonth y 2 = 31" "DaysInMonth y 3 = 30" "DaysInMonth y 4 = 31" "DaysInMonth y 5 = 30"
  "DaysInMonth y 6 = 31" "DaysInMonth y 7 = 31" "DaysInMonth y 8 = 30" "DaysInMonth y 9 = 31"
  "DaysInMonth y 10 = 30" "DaysInMonth y 11 = 31"
  by (simp_all add: DaysInMonth_def leapOffset_def)

lemma leapOffset_range: "0 \<le> leapOffset l" "leapOffset l \<le> 1"
  by (simp_all add: leapOffset_def)

lemma DaysInYear_leapOffset: "DaysInYear y = 365 + leapOffset (InLeapYear y)"
  by (simp add: DaysInYear_def leapOffset_def)

lemma monthStart_range:
  assumes "0 \<le> mn" "mn < 12" "1 \<le> dd" "dd \<le> DaysInMonth y mn"
  shows "0 \<le> monthStart (InLeapYear y) mn + dd - 1"
    and "monthStart (InLeapYear y) mn + dd - 1 < DaysInYear y"
proof -
  note lo = leapOffset_range [of "InLeapYear y"]
  have "0 \<le> monthStart (InLeapYear y) mn + dd - 1
        \<and> monthStart (InLeapYear y) mn + dd - 1 < DaysInYear y"
    using month_cases [OF assms(1,2)]
  proof (elim disjE)
    assume "mn = 0" then show ?thesis
      using assms(3,4) lo by (simp add: monthStart_simps DaysInMonth_simps DaysInYear_leapOffset)
  next
    assume "mn = 1" then show ?thesis
      using assms(3,4) lo by (simp add: monthStart_simps DaysInMonth_simps DaysInYear_leapOffset)
  next
    assume "mn = 2" then show ?thesis
      using assms(3,4) lo by (simp add: monthStart_simps DaysInMonth_simps DaysInYear_leapOffset)
  next
    assume "mn = 3" then show ?thesis
      using assms(3,4) lo by (simp add: monthStart_simps DaysInMonth_simps DaysInYear_leapOffset)
  next
    assume "mn = 4" then show ?thesis
      using assms(3,4) lo by (simp add: monthStart_simps DaysInMonth_simps DaysInYear_leapOffset)
  next
    assume "mn = 5" then show ?thesis
      using assms(3,4) lo by (simp add: monthStart_simps DaysInMonth_simps DaysInYear_leapOffset)
  next
    assume "mn = 6" then show ?thesis
      using assms(3,4) lo by (simp add: monthStart_simps DaysInMonth_simps DaysInYear_leapOffset)
  next
    assume "mn = 7" then show ?thesis
      using assms(3,4) lo by (simp add: monthStart_simps DaysInMonth_simps DaysInYear_leapOffset)
  next
    assume "mn = 8" then show ?thesis
      using assms(3,4) lo by (simp add: monthStart_simps DaysInMonth_simps DaysInYear_leapOffset)
  next
    assume "mn = 9" then show ?thesis
      using assms(3,4) lo by (simp add: monthStart_simps DaysInMonth_simps DaysInYear_leapOffset)
  next
    assume "mn = 10" then show ?thesis
      using assms(3,4) lo by (simp add: monthStart_simps DaysInMonth_simps DaysInYear_leapOffset)
  next
    assume "mn = 11" then show ?thesis
      using assms(3,4) lo by (simp add: monthStart_simps DaysInMonth_simps DaysInYear_leapOffset)
  qed
  then show "0 \<le> monthStart (InLeapYear y) mn + dd - 1"
    and "monthStart (InLeapYear y) mn + dd - 1 < DaysInYear y" by simp_all
qed

lemma MakeDay_roundtrip:
  assumes "0 \<le> mn" "mn < 12" "1 \<le> dd" "dd \<le> DaysInMonth y mn"
  shows "YearFromDay (MakeDay y mn dd) = y"
    and "MonthFromDay (MakeDay y mn dd) = mn"
    and "DateFromDay (MakeDay y mn dd) = dd"
proof -
  note lo = leapOffset_range [of "InLeapYear y"]
  have m: "mn div 12 = 0" "mn mod 12 = mn" using assms by simp_all
  have md: "MakeDay y mn dd = DayFromYear y + (monthStart (InLeapYear y) mn + dd - 1)"
    by (simp add: MakeDay_def Let_def m)
  have r: "0 \<le> monthStart (InLeapYear y) mn + dd - 1"
    "monthStart (InLeapYear y) mn + dd - 1 < DaysInYear y"
    using monthStart_range [OF assms] by simp_all
  show yr: "YearFromDay (MakeDay y mn dd) = y"
  proof (rule YearFromDay_unique)
    show "DayFromYear y \<le> MakeDay y mn dd" using r(1) unfolding md by simp
    show "MakeDay y mn dd < DayFromYear (y + 1)"
      using r(2) unfolding md DayFromYear_step by simp
  qed
  have w: "DayWithinYear (MakeDay y mn dd) = monthStart (InLeapYear y) mn + dd - 1"
    unfolding DayWithinYear_def yr by (simp add: md)
  show mo: "MonthFromDay (MakeDay y mn dd) = mn"
    using month_cases [OF assms(1,2)]
  proof (elim disjE)
    assume "mn = 0" then show ?thesis
      using assms(3,4) lo unfolding MonthFromDay_def Let_def w yr
      by (simp add: monthStart_simps DaysInMonth_simps)
  next
    assume "mn = 1" then show ?thesis
      using assms(3,4) lo unfolding MonthFromDay_def Let_def w yr
      by (simp add: monthStart_simps DaysInMonth_simps)
  next
    assume "mn = 2" then show ?thesis
      using assms(3,4) lo unfolding MonthFromDay_def Let_def w yr
      by (simp add: monthStart_simps DaysInMonth_simps)
  next
    assume "mn = 3" then show ?thesis
      using assms(3,4) lo unfolding MonthFromDay_def Let_def w yr
      by (simp add: monthStart_simps DaysInMonth_simps)
  next
    assume "mn = 4" then show ?thesis
      using assms(3,4) lo unfolding MonthFromDay_def Let_def w yr
      by (simp add: monthStart_simps DaysInMonth_simps)
  next
    assume "mn = 5" then show ?thesis
      using assms(3,4) lo unfolding MonthFromDay_def Let_def w yr
      by (simp add: monthStart_simps DaysInMonth_simps)
  next
    assume "mn = 6" then show ?thesis
      using assms(3,4) lo unfolding MonthFromDay_def Let_def w yr
      by (simp add: monthStart_simps DaysInMonth_simps)
  next
    assume "mn = 7" then show ?thesis
      using assms(3,4) lo unfolding MonthFromDay_def Let_def w yr
      by (simp add: monthStart_simps DaysInMonth_simps)
  next
    assume "mn = 8" then show ?thesis
      using assms(3,4) lo unfolding MonthFromDay_def Let_def w yr
      by (simp add: monthStart_simps DaysInMonth_simps)
  next
    assume "mn = 9" then show ?thesis
      using assms(3,4) lo unfolding MonthFromDay_def Let_def w yr
      by (simp add: monthStart_simps DaysInMonth_simps)
  next
    assume "mn = 10" then show ?thesis
      using assms(3,4) lo unfolding MonthFromDay_def Let_def w yr
      by (simp add: monthStart_simps DaysInMonth_simps)
  next
    assume "mn = 11" then show ?thesis
      using assms(3,4) lo unfolding MonthFromDay_def Let_def w yr
      by (simp add: monthStart_simps DaysInMonth_simps)
  qed
  show "DateFromDay (MakeDay y mn dd) = dd"
    unfolding DateFromDay_def w yr mo by simp
qed

lemma monthStart_bounds:
  assumes "0 \<le> mn" "mn < 12"
  shows "0 \<le> monthStart l mn" "monthStart l mn \<le> 335"
proof -
  note lo = leapOffset_range [of l]
  have "0 \<le> monthStart l mn \<and> monthStart l mn \<le> 335"
    using month_cases [OF assms] lo by (auto simp: monthStart_simps)
  then show "0 \<le> monthStart l mn" "monthStart l mn \<le> 335" by simp_all
qed

lemma MakeDay_bounds:
  assumes "0 \<le> yr" "yr \<le> 10000" "- 12 \<le> mo" "mo \<le> 120" "0 \<le> dt" "dt \<le> 100"
  shows "\<bar>MakeDay yr mo dt * msPerDay\<bar> \<le> 8640000000000000"
proof -
  define ym where "ym = yr + mo div 12"
  have q: "- 1 \<le> mo div 12" "mo div 12 \<le> 10"
    using assms(3,4) by presburger+
  have ym: "- 1 \<le> ym" "ym \<le> 10010" using q assms(1,2) by (simp_all add: ym_def)
  have a: "400 * DayFromYear ym \<le> 146097 * (ym - 1970) + 589"
    "146097 * (ym - 1970) - 506 \<le> 400 * DayFromYear ym"
    using DayFromYear_bounds [of ym] by simp_all
  have d: "- 1000000 \<le> DayFromYear ym" "DayFromYear ym \<le> 3000000"
    using a ym by simp_all
  have ms: "0 \<le> monthStart (InLeapYear ym) (mo mod 12)"
    "monthStart (InLeapYear ym) (mo mod 12) \<le> 335"
    by (rule monthStart_bounds; simp)+
  have md: "MakeDay yr mo dt = DayFromYear ym + monthStart (InLeapYear ym) (mo mod 12) + dt - 1"
    by (simp add: MakeDay_def Let_def ym_def)
  have "- 1000001 \<le> MakeDay yr mo dt" "MakeDay yr mo dt \<le> 3000500"
    unfolding md using d ms assms(5,6) by simp_all
  then show ?thesis by (simp add: msPerDay_def abs_le_iff)
qed

lemma getters_of_day:
  "getFullYear (D * msPerDay) = YearFromDay D"
  "getMonth (D * msPerDay) = MonthFromDay D"
  "getDate (D * msPerDay) = DateFromDay D"
  by (simp_all add: getFullYear_def getMonth_def getDate_def msPerDay_def)

section \<open>Evaluating the matcher\<close>

lemma matches_code [code]:
  "matches ic (Lit ch) i s c k =
     (case s of [] \<Rightarrow> None | x # xs \<Rightarrow> if litMatch ic ch x then k (i + 1) xs c else None)"
  "matches ic (Class cl) i s c k =
     (case s of [] \<Rightarrow> None | x # xs \<Rightarrow> if clsMatch ic cl x then k (i + 1) xs c else None)"
  "matches ic Eps i s c k = k i s c"
  "matches ic (Seq a b) i s c k = matches ic a i s c (seqk ic b k)"
  "matches ic (Alt a b) i s c k =
     (case matches ic a i s c k of Some r \<Rightarrow> Some r | None \<Rightarrow> matches ic b i s c k)"
  "matches ic (Opt a) i s c k =
     (case matches ic a i s c k of Some r \<Rightarrow> Some r | None \<Rightarrow> k i s c)"
  "matches ic (Star a) i s c k =
     (case matches ic a i s c (stark ic (Star a) (length s) k)
      of Some r \<Rightarrow> Some r | None \<Rightarrow> k i s c)"
  "matches ic (Lazy a) i s c k =
     (case k i s c of Some r \<Rightarrow> Some r
      | None \<Rightarrow> matches ic a i s c (stark ic (Lazy a) (length s) k))"
  "matches ic (Group a) i s c k = matches ic a i s c (grpk i s k)"
  "matches ic Bol i s c k = (if i = 0 then k i s c else None)"
  "matches ic Eol i s c k = (if s = [] then k i s c else None)"
  unfolding seqk_def stark_def grpk_def by simp_all

lemma seqk_code [code]: "seqk ic b k i' s' c' = matches ic b i' s' c' k"
  by (simp add: seqk_def)

lemma stark_code [code]:
  "stark ic r n k i' s' c' = (if length s' < n then matches ic r i' s' c' k else None)"
  by (simp add: stark_def)

lemma grpk_code [code]: "grpk i s k i' s' c' = k i' s' (c' @ [take (i' - i) s])"
  by (simp add: grpk_def)

lemmas mcode = matches_code seqk_code stark_code grpk_code

section \<open>Digits\<close>

lemma digits_not_space: "c \<in> set digits \<Longrightarrow> \<not> isSpace c"
  by (auto simp: digits_def isSpace_def spaces_def)

lemma trim_id:
  assumes "s \<noteq> []" "\<not> isSpace (hd s)" "\<not> isSpace (last s)"
  shows "trim s = s"
proof -
  have a: "dropWhile isSpace s = s"
    using assms(1,2) by (cases s) simp_all
  have "rev s \<noteq> []" "\<not> isSpace (hd (rev s))"
    using assms(1,3) by (simp_all add: hd_rev)
  then have "dropWhile isSpace (rev s) = rev s"
    by (cases "rev s") simp_all
  then show ?thesis by (simp add: trim_def a)
qed

lemma digit_not_slash: "c \<in> set digits \<Longrightarrow> c \<noteq> CHR ''/''"
  and digit_not_dash: "c \<in> set digits \<Longrightarrow> c \<noteq> CHR ''-''"
  by (auto simp: digits_def)

lemma digit_not_letter: "c \<in> set digits \<Longrightarrow> \<not> clsMatch True (OneOf lowerAZ) c"
proof -
  have "\<forall>c \<in> set digits. \<not> clsMatch True (OneOf lowerAZ) c" by code_simp
  then show "c \<in> set digits \<Longrightarrow> \<not> clsMatch True (OneOf lowerAZ) c" by blast
qed

lemma digit_not_sep: "c \<in> set digits \<Longrightarrow> \<not> inCls (OneOf ''/-'') c"
  by (auto simp: digits_def)

lemma num2: "num [a, b] = 10 * digitVal a + digitVal b"
  and num4: "num [a, b, c, d] = 1000 * digitVal a + 100 * digitVal b + 10 * digitVal c + digitVal d"
  by (simp_all add: num_def)

lemma digitVal_range: "0 \<le> digitVal c" "digitVal c \<le> 9"
proof -
  have "digitVal c \<in> {0, 1, 2, 3, 4, 5, 6, 7, 8, 9}"
    by (simp add: digitVal_def digits_def)
  then show "0 \<le> digitVal c" "digitVal c \<le> 9" by auto
qed

lemma num_bounds:
  "0 \<le> num [a, b]" "num [a, b] \<le> 99" "0 \<le> num [a, b, c, d]" "num [a, b, c, d] \<le> 9999"
  using digitVal_range [of a] digitVal_range [of b] digitVal_range [of c] digitVal_range [of d]
  by (simp_all add: num2 num4)

lemma parseInt_digits2:
  "a \<in> set digits \<Longrightarrow> b \<in> set digits \<Longrightarrow> parseInt [a, b] = Some (num [a, b])"
  by (simp add: parseInt_def num_def)

lemma parseInt_digits4:
  "a \<in> set digits \<Longrightarrow> b \<in> set digits \<Longrightarrow> c \<in> set digits \<Longrightarrow> d \<in> set digits
   \<Longrightarrow> parseInt [a, b, c, d] = Some (num [a, b, c, d])"
  by (simp add: parseInt_def num_def)

section \<open>Day, month, year strings\<close>

lemma dmY_match:
  assumes "a \<in> set digits" "b \<in> set digits" "c \<in> set digits" "d \<in> set digits"
    "e \<in> set digits" "f \<in> set digits" "g \<in> set digits" "h \<in> set digits"
  shows "rx_match dmY [a, b, CHR ''/'', c, d, CHR ''/'', e, f, g, h]
         = Some ([a, b, CHR ''/'', c, d, CHR ''/'', e, f, g, h], [[a, b], [c, d], [e, f, g, h]])"
  using assms
  by (simp add: rx_match_def dmY_def mk_def dig2_def dig4_def mcode accept_def litMatch_def
      clsMatch_def del: matches.simps)

lemma dmY_dash_nomatch:
  "rx_match dmY [a, b, CHR ''-'', c, d, CHR ''-'', e, f, g, h] = None"
  by (simp add: rx_match_def dmY_def mk_def dig2_def dig4_def mcode accept_def litMatch_def
      clsMatch_def del: matches.simps)

lemma dmYdash_match:
  assumes "a \<in> set digits" "b \<in> set digits" "c \<in> set digits" "d \<in> set digits"
    "e \<in> set digits" "f \<in> set digits" "g \<in> set digits" "h \<in> set digits"
  shows "rx_match dmYdash [a, b, CHR ''-'', c, d, CHR ''-'', e, f, g, h]
         = Some ([a, b, CHR ''-'', c, d, CHR ''-'', e, f, g, h], [[a, b], [c, d], [e, f, g, h]])"
  using assms
  by (simp add: rx_match_def dmYdash_def mk_def dig2_def dig4_def mcode accept_def litMatch_def
      clsMatch_def del: matches.simps)

lemma isoParse_midnight:
  assumes dg: "a \<in> set digits" "b \<in> set digits" "c \<in> set digits" "d \<in> set digits"
    "e \<in> set digits" "f \<in> set digits" "g \<in> set digits" "h \<in> set digits"
  and v: "1 \<le> num [c, d]" "num [c, d] \<le> 12" "1 \<le> num [a, b]"
    "num [a, b] \<le> DaysInMonth (num [e, f, g, h]) (num [c, d] - 1)"
  shows "isoParse ([e, f, g, h] @ ''-'' @ [c, d] @ ''-'' @ [a, b] @ ''T00:00:00'')
         = Some (MakeDay (num [e, f, g, h]) (num [c, d] - 1) (num [a, b]) * msPerDay)"
proof -
  have z: "num ''00'' = 0" by (simp add: num_def digitVal_def digits_def)
  have z0: "CHR ''0'' \<in> set digits" by (simp add: digits_def)
  show ?thesis
    using dg v by (simp add: isoParse_def z z0 Let_def)
qed

lemma toDate_dmy:
  assumes dg: "a \<in> set digits" "b \<in> set digits" "c \<in> set digits" "d \<in> set digits"
    "e \<in> set digits" "f \<in> set digits" "g \<in> set digits" "h \<in> set digits"
  and s: "s = CHR ''/'' \<or> s = CHR ''-''"
  and v: "1 \<le> num [c, d]" "num [c, d] \<le> 12" "1 \<le> num [a, b]"
    "num [a, b] \<le> DaysInMonth (num [e, f, g, h]) (num [c, d] - 1)"
  shows "toDate native (StrVal [a, b, s, c, d, s, e, f, g, h])
         = Some (MakeDay (num [e, f, g, h]) (num [c, d] - 1) (num [a, b]) * msPerDay)"
proof -
  have t: "trim [a, b, x, c, d, x, e, f, g, h] = [a, b, x, c, d, x, e, f, g, h]" for x
    by (rule trim_id) (use dg digits_not_space in simp_all)
  have iso: "isoParse ([e, f, g, h] @ ''-'' @ [c, d] @ ''-'' @ [a, b] @ ''T00:00:00'')
         = Some (MakeDay (num [e, f, g, h]) (num [c, d] - 1) (num [a, b]) * msPerDay)"
    by (rule isoParse_midnight [OF dg v])
  have tt: "twoTries native ([e, f, g, h] @ ''-'' @ [c, d] @ ''-'' @ [a, b] @ ''T00:00:00'')
         = Some (MakeDay (num [e, f, g, h]) (num [c, d] - 1) (num [a, b]) * msPerDay)"
    by (simp only: twoTries_def newDateStr_def iso option.case)
  have slash: "dmyIso (rx_match dmY [a, b, CHR ''/'', c, d, CHR ''/'', e, f, g, h])
      = Some ([e, f, g, h] @ ''-'' @ [c, d] @ ''-'' @ [a, b] @ ''T00:00:00'')"
    by (simp add: dmY_match [OF dg] dmyIso_def)
  have dash0: "dmyIso (rx_match dmY [a, b, CHR ''-'', c, d, CHR ''-'', e, f, g, h]) = None"
    by (simp add: dmY_dash_nomatch dmyIso_def)
  have dash: "dmyIso (rx_match dmYdash [a, b, CHR ''-'', c, d, CHR ''-'', e, f, g, h])
      = Some ([e, f, g, h] @ ''-'' @ [c, d] @ ''-'' @ [a, b] @ ''T00:00:00'')"
    by (simp add: dmYdash_match [OF dg] dmyIso_def)
  from s show ?thesis
  proof
    assume x: "s = CHR ''/''"
    show ?thesis
      unfolding x toDate_def jsval.case Let_def t slash option.case by (rule tt)
  next
    assume x: "s = CHR ''-''"
    show ?thesis
      unfolding x toDate_def jsval.case Let_def t dash0 dash option.case by (rule tt)
  qed
qed

lemma formatNamed_nomatch:
  assumes "a \<in> set digits"
  shows "rx_match formatNamed [a, b, s1, c, d, s2, e, f, g, h] = None"
  using digit_not_letter [OF assms]
  by (simp add: rx_match_def formatNamed_def mk_def Plus_def ws1_def dig12_def dig4_def mcode
      accept_def del: matches.simps)

lemma formatMDY_match:
  assumes "a \<in> set digits" "b \<in> set digits" "c \<in> set digits" "d \<in> set digits"
    "e \<in> set digits" "f \<in> set digits" "g \<in> set digits" "h \<in> set digits"
    and "s1 = CHR ''/'' \<or> s1 = CHR ''-''" "s2 = CHR ''/'' \<or> s2 = CHR ''-''"
  shows "rx_match formatMDY [a, b, s1, c, d, s2, e, f, g, h]
         = Some ([a, b, s1, c, d, s2, e, f, g, h], [[a, b], [c, d], [e, f, g, h]])"
  using assms
  by (simp add: rx_match_def formatMDY_def mk_def dig12_def dig4_def sep_def mcode accept_def
      litMatch_def clsMatch_def del: matches.simps)

lemma formatMDY_source:
  "\<not> includes_str (source formatMDY) ''([a-z]+)''"
  "indexOf (source formatMDY) (unesc ''(~d{4})'') = 31"
  "indexOf (source formatYMD) (unesc ''(~d{4})'') = 1"
  "includes_str (source formatNamed) ''([a-z]+)''"
  by code_simp+

lemma parseDate_mdy:
  assumes dg: "a \<in> set digits" "b \<in> set digits" "c \<in> set digits" "d \<in> set digits"
    "e \<in> set digits" "f \<in> set digits" "g \<in> set digits" "h \<in> set digits"
    and s: "s1 = CHR ''/'' \<or> s1 = CHR ''-''" "s2 = CHR ''/'' \<or> s2 = CHR ''-''"
  shows "parseDate native [a, b, s1, c, d, s2, e, f, g, h]
         = Some (MakeDay (if num [e, f, g, h] \<le> 99 then 1900 + num [e, f, g, h]
                          else num [e, f, g, h])
                   (num [a, b] - 1) (num [c, d]) * msPerDay)"
proof -
  let ?str = "[a, b, s1, c, d, s2, e, f, g, h]"
  let ?yr = "if num [e, f, g, h] \<le> 99 then 1900 + num [e, f, g, h] else num [e, f, g, h]"
  have t: "trim ?str = ?str"
    by (rule trim_id) (use dg digits_not_space in simp_all)
  have yr: "0 \<le> ?yr" "?yr \<le> 10000"
    using num_bounds(3,4) [of e f g h] by simp_all
  have clip: "TimeClip (MakeDay ?yr (num [a, b] - 1) (num [c, d]) * msPerDay)
      = Some (MakeDay ?yr (num [a, b] - 1) (num [c, d]) * msPerDay)"
    unfolding TimeClip_def
    using MakeDay_bounds [OF yr, of "num [a, b] - 1" "num [c, d]"]
      num_bounds(1,2) [of a b] num_bounds(1,2) [of c d]
    by simp
  have nd: "newDate3 (parseInt [e, f, g, h]) (map_option (\<lambda>v. v - 1) (parseInt [a, b]))
              (parseInt [c, d])
      = Some (MakeDay ?yr (num [a, b] - 1) (num [c, d]) * msPerDay)"
    using clip num_bounds(3) [of e f g h]
    by (simp add: newDate3_def parseInt_digits2 parseInt_digits4 dg Let_def)
  show ?thesis
    unfolding parseDate_def t formats_def
    by (simp add: formatNamed_nomatch [OF dg(1)] formatMDY_match [OF dg s] formatMDY_source nd
        del: includes_str.simps)
qed

text \<open>
  C2 (as stated): a string day, month, year of a real calendar date, with \<open>/\<close> or \<open>-\<close>
  as separators, is accepted under a day/month/year layout and the parsed instant has that
  year, month and day. \<open>DateExtractor.parseDate\<close> has no such layout: its numeric layout
  is month/day/year, and it reads \<open>05/12/2026\<close> (5 December) as 12 May 2026. \<open>toDate\<close> has
  the two layouts \<open>dd/MM/yyyy\<close> and \<open>dd-MM-yyyy\<close> and none for two different separators:
  it hands \<open>05/12-2026\<close> to the host's parser as it is, which may give an Invalid Date.
\<close>

theorem C2_day_first_not_read:
  "parseDate isoOnlyHost ''05/12/2026'' = Some 1778544000000
   \<and> getFullYear 1778544000000 = 2026 \<and> getMonth 1778544000000 = 4
   \<and> getDate 1778544000000 = 12
   \<and> toDate isoOnlyHost (StrVal ''05/12-2026'') = None"
  by code_simp

text \<open>
  C2 (amended): for every string of two digits, a separator, two digits, the same
  separator (slash or dash) and four digits that names a real calendar date, read as day,
  month, year, \<open>toDate\<close> of the shared schema accepts it under its day/month/year layout
  and the instant it returns has exactly that year, month and day, whatever the host's
  parser does with other strings.
\<close>

theorem C2_toDate_roundtrip:
  assumes dg: "a \<in> set digits" "b \<in> set digits" "c \<in> set digits" "d \<in> set digits"
    "e \<in> set digits" "f \<in> set digits" "g \<in> set digits" "h \<in> set digits"
  and s: "s = CHR ''/'' \<or> s = CHR ''-''"
  and v: "1 \<le> num [c, d]" "num [c, d] \<le> 12" "1 \<le> num [a, b]"
    "num [a, b] \<le> DaysInMonth (num [e, f, g, h]) (num [c, d] - 1)"
  shows "toDate native (StrVal [a, b, s, c, d, s, e, f, g, h])
           = Some (MakeDay (num [e, f, g, h]) (num [c, d] - 1) (num [a, b]) * msPerDay)
    \<and> getFullYear (MakeDay (num [e, f, g, h]) (num [c, d] - 1) (num [a, b]) * msPerDay)
          = num [e, f, g, h]
    \<and> getMonth (MakeDay (num [e, f, g, h]) (num [c, d] - 1) (num [a, b]) * msPerDay)
          = num [c, d] - 1
    \<and> getDate (MakeDay (num [e, f, g, h]) (num [c, d] - 1) (num [a, b]) * msPerDay)
          = num [a, b]"
proof -
  have m: "0 \<le> num [c, d] - 1" "num [c, d] - 1 < 12" using v by simp_all
  note rt = MakeDay_roundtrip [OF m v(3,4)]
  show ?thesis
    using toDate_dmy [OF dg s v, of native] rt
    by (simp only: getters_of_day simp_thms)
qed

theorem C2_toDate_roundtrip_witness:
  "toDate isoOnlyHost (StrVal ''25/12/2026'') = Some 1798156800000
   \<and> getFullYear 1798156800000 = 2026 \<and> getMonth 1798156800000 = 11
   \<and> getDate 1798156800000 = 25"
proof -
  have dg: "CHR ''2'' \<in> set digits" "CHR ''5'' \<in> set digits" "CHR ''1'' \<in> set digits"
    "CHR ''0'' \<in> set digits" "CHR ''6'' \<in> set digits"
    by (simp_all add: digits_def)
  have n: "num ''25'' = 25" "num ''12'' = 12" "num ''2026'' = 2026"
    by (simp_all add: num_def digitVal_def digits_def)
  have dm: "DaysInMonth 2026 11 = 31" by (simp add: DaysInMonth_def)
  have md: "MakeDay 2026 11 25 * msPerDay = 1798156800000" by code_simp
  have s: "CHR ''/'' = CHR ''/'' \<or> CHR ''/'' = CHR ''-''" by simp
  have v: "1 \<le> num ''12''" "num ''12'' \<le> 12" "1 \<le> num ''25''"
    "num ''25'' \<le> DaysInMonth (num ''2026'') (num ''12'' - 1)"
    by (simp_all add: n dm)
  show ?thesis
    using C2_toDate_roundtrip [OF dg(1) dg(2) dg(3) dg(1) dg(1) dg(4) dg(1) dg(5) s v, of isoOnlyHost]
    by (simp add: n md)
qed

lemma parse_feb31:
  "parseDate native ''31/02/2024'' = Some 1782950400000
   \<and> getFullYear 1782950400000 = 2026 \<and> getMonth 1782950400000 = 6
   \<and> getDate 1782950400000 = 2"
  by code_simp

lemma toDate_feb31:
  "toDate native (StrVal ''31/02/2024'')
     = (case native ''2024-02-31T00:00:00'' of
          Some t \<Rightarrow> Some t
        | None \<Rightarrow> native ''2024-02-31T00:00:00Z'')"
proof -
  have t: "trim ''31/02/2024'' = ''31/02/2024''" by code_simp
  have m: "dmyIso (rx_match dmY ''31/02/2024'') = Some ''2024-02-31T00:00:00''" by code_simp
  have i: "isoParse ''2024-02-31T00:00:00'' = None" "isoParse ''2024-02-31T00:00:00Z'' = None"
    by code_simp+
  show ?thesis
    unfolding toDate_def jsval.case Let_def t m option.case twoTries_def newDateStr_def
    by (simp add: i split: option.split)
qed

text \<open>
  C3: a string that matches a numeric layout without naming a valid calendar date, such as
  \<open>31/02/2024\<close>, is rejected and not rolled forward. \<open>parseDate\<close> returns the instant
  2 July 2026 for it (month 31 of 2024, day 2): its test for an invalid date never fails
  after the \<open>Date\<close> constructor with numeric arguments. \<open>toDate\<close> hands
  \<open>2024-02-31T00:00:00\<close> to the host's parser and returns what that gives, an Invalid Date
  object at worst.
\<close>

theorem C3_parseDate_rolls_forward:
  "parseDate native ''31/02/2024'' = Some 1782950400000
   \<and> getFullYear 1782950400000 = 2026 \<and> getMonth 1782950400000 = 6
   \<and> getDate 1782950400000 = 2
   \<and> toDate native (StrVal ''31/02/2024'')
       = (case native ''2024-02-31T00:00:00'' of
            Some t \<Rightarrow> Some t
          | None \<Rightarrow> native ''2024-02-31T00:00:00Z'')"
  using parse_feb31 [of native] toDate_feb31 [of native] by blast

section \<open>Confidence\<close>

lemma calculateConfidence_split:
  "calculateConfidence p w =
     textScore (sourceScore p)
       (includes_str (toLowerCase w) ''expiry date'')
       (includes_str (toLowerCase w) ''valid until'')
       (includes_str (toLowerCase w) ''expires'')"
  by (simp add: calculateConfidence_def textScore_def sourceScore_def Let_def
      del: includes_str.simps)

lemma sourceScore_patterns:
  "sourceScore pattern1 = 2476979795053773 / 2251799813685248"
  "sourceScore pattern2 = 2476979795053773 / 2251799813685248"
  "sourceScore pattern3 = 2476979795053773 / 2251799813685248"
  "sourceScore pattern4 = 7205759403792793 / 9007199254740992"
  "sourceScore pattern5 = 7205759403792793 / 9007199254740992"
  "sourceScore pattern6 = 7205759403792793 / 9007199254740992"
  "sourceScore pattern7 = 3602879701896397 / 4503599627370496"
  "sourceScore pattern8 = 3602879701896397 / 4503599627370496"
  "sourceScore pattern9 = 3602879701896397 / 4503599627370496"
  by code_simp+

lemma textScore_bounds:
  "\<forall>b4 b5 b6. textScore (2476979795053773 / 2251799813685248) b4 b5 b6
      = 4278419646001971 / 4503599627370496"
  "\<forall>b4 b5 b6. textScore (7205759403792793 / 9007199254740992) b4 b5 b6
      \<in> {7205759403792793 / 9007199254740992, 4278419646001971 / 4503599627370496}"
  "\<forall>b4 b5 b6. textScore (3602879701896397 / 4503599627370496) b4 b5 b6
      \<in> {3602879701896397 / 4503599627370496, 4278419646001971 / 4503599627370496}"
  by code_simp+

lemma confidence_values:
  assumes "p \<in> set datePatterns"
  shows "calculateConfidence p w \<in>
    {7205759403792793 / 9007199254740992, 3602879701896397 / 4503599627370496,
     4278419646001971 / 4503599627370496}"
proof -
  have "p = pattern1 \<or> p = pattern2 \<or> p = pattern3 \<or> p = pattern4 \<or> p = pattern5
      \<or> p = pattern6 \<or> p = pattern7 \<or> p = pattern8 \<or> p = pattern9"
    using assms by (simp add: datePatterns_def)
  then show ?thesis
  proof (elim disjE)
    assume "p = pattern1"
    then show ?thesis
      unfolding calculateConfidence_split
      by (simp only: sourceScore_patterns) (use textScore_bounds(1) in blast)
  next
    assume "p = pattern2"
    then show ?thesis
      unfolding calculateConfidence_split
      by (simp only: sourceScore_patterns) (use textScore_bounds(1) in blast)
  next
    assume "p = pattern3"
    then show ?thesis
      unfolding calculateConfidence_split
      by (simp only: sourceScore_patterns) (use textScore_bounds(1) in blast)
  next
    assume "p = pattern4"
    then show ?thesis
      unfolding calculateConfidence_split
      by (simp only: sourceScore_patterns) (use textScore_bounds(2) in blast)
  next
    assume "p = pattern5"
    then show ?thesis
      unfolding calculateConfidence_split
      by (simp only: sourceScore_patterns) (use textScore_bounds(2) in blast)
  next
    assume "p = pattern6"
    then show ?thesis
      unfolding calculateConfidence_split
      by (simp only: sourceScore_patterns) (use textScore_bounds(2) in blast)
  next
    assume "p = pattern7"
    then show ?thesis
      unfolding calculateConfidence_split
      by (simp only: sourceScore_patterns) (use textScore_bounds(3) in blast)
  next
    assume "p = pattern8"
    then show ?thesis
      unfolding calculateConfidence_split
      by (simp only: sourceScore_patterns) (use textScore_bounds(3) in blast)
  next
    assume "p = pattern9"
    then show ?thesis
      unfolding calculateConfidence_split
      by (simp only: sourceScore_patterns) (use textScore_bounds(3) in blast)
  qed
qed

lemma confidence_expir:
  assumes "p = pattern1 \<or> p = pattern2 \<or> p = pattern3 \<or> p = pattern7 \<or> p = pattern8
      \<or> p = pattern9"
  shows "calculateConfidence p w \<in>
    {3602879701896397 / 4503599627370496, 4278419646001971 / 4503599627370496}"
  using assms
proof (elim disjE)
    assume "p = pattern1"
    then show ?thesis
      unfolding calculateConfidence_split
      by (simp only: sourceScore_patterns) (use textScore_bounds(1) in blast)
  next
    assume "p = pattern2"
    then show ?thesis
      unfolding calculateConfidence_split
      by (simp only: sourceScore_patterns) (use textScore_bounds(1) in blast)
  next
    assume "p = pattern3"
    then show ?thesis
      unfolding calculateConfidence_split
      by (simp only: sourceScore_patterns) (use textScore_bounds(1) in blast)
  next
    assume "p = pattern7"
    then show ?thesis
      unfolding calculateConfidence_split
      by (simp only: sourceScore_patterns) (use textScore_bounds(3) in blast)
  next
    assume "p = pattern8"
    then show ?thesis
      unfolding calculateConfidence_split
      by (simp only: sourceScore_patterns) (use textScore_bounds(3) in blast)
  next
    assume "p = pattern9"
    then show ?thesis
      unfolding calculateConfidence_split
      by (simp only: sourceScore_patterns) (use textScore_bounds(3) in blast)
qed

section \<open>The extraction loop\<close>

lemma extractLoop_step:
  "extractLoop native now t (p # ps) = extractLoop native now t ps
   \<or> (\<exists>w d. extractLoop native now t (p # ps)
          = \<lparr> date = Some d, confidence = calculateConfidence p w \<rparr>
        \<and> isValidExpiryDate now d)"
  by (auto split: option.splits list.splits)

lemma extractLoop_cases:
  "extractLoop native now t ps = \<lparr> date = None, confidence = 0 \<rparr>
   \<or> (\<exists>p \<in> set ps. \<exists>w d. extractLoop native now t ps
          = \<lparr> date = Some d, confidence = calculateConfidence p w \<rparr>
        \<and> isValidExpiryDate now d)"
proof (induction ps)
  case Nil
  then show ?case by simp
next
  case (Cons p ps)
  from extractLoop_step [of native now t p ps] show ?case
  proof
    assume e: "extractLoop native now t (p # ps) = extractLoop native now t ps"
    from Cons.IH show ?thesis
    proof
      assume "extractLoop native now t ps = \<lparr> date = None, confidence = 0 \<rparr>"
      then show ?thesis using e by simp
    next
      assume "\<exists>q \<in> set ps. \<exists>w d. extractLoop native now t ps
          = \<lparr> date = Some d, confidence = calculateConfidence q w \<rparr>
        \<and> isValidExpiryDate now d"
      then obtain q w d where "q \<in> set ps"
        "extractLoop native now t ps = \<lparr> date = Some d, confidence = calculateConfidence q w \<rparr>"
        "isValidExpiryDate now d" by blast
      then have "q \<in> set (p # ps)"
        "extractLoop native now t (p # ps)
           = \<lparr> date = Some d, confidence = calculateConfidence q w \<rparr>"
        using e by simp_all
      then show ?thesis using \<open>isValidExpiryDate now d\<close> by blast
    qed
  next
    assume "\<exists>w d. extractLoop native now t (p # ps)
          = \<lparr> date = Some d, confidence = calculateConfidence p w \<rparr>
        \<and> isValidExpiryDate now d"
    then obtain w d where
      "extractLoop native now t (p # ps)
         = \<lparr> date = Some d, confidence = calculateConfidence p w \<rparr>"
      "isValidExpiryDate now d" by blast
    moreover have "p \<in> set (p # ps)" by simp
    ultimately show ?thesis by blast
  qed
qed

lemma extractLoop_none_iff:
  "date (extractLoop native now t ps) = None \<longleftrightarrow> filter (accepted native now t) ps = []"
proof (induction ps)
  case Nil
  then show ?case by simp
next
  case (Cons p ps)
  then show ?case
    by (auto simp: accepted_def split: option.splits list.splits)
qed

lemma window_bounds:
  "isValidExpiryDate now d \<longleftrightarrow>
     now - 5 * 365 * msPerDay \<le> d \<and> d \<le> now + 5 * 365 * msPerDay"
  by (auto simp: isValidExpiryDate_def Let_def msPerDay_def)

subsection \<open>Two texts\<close>

lemma t7_clean: "trim (collapse ''Expiry Date: 12/31/2026'') = ''Expiry Date: 12/31/2026''"
  by code_simp

lemma t7_matches:
  "rx_match pattern1 ''Expiry Date: 12/31/2026'' = None"
  "rx_match pattern2 ''Expiry Date: 12/31/2026'' = Some (''Expiry Date: 12/31/2026'', [''12/31/2026''])"
  by code_simp+

lemma t8_clean: "trim (collapse ''Expiry Date: 12/31/2036'') = ''Expiry Date: 12/31/2036''"
  by code_simp

lemma t8_matches:
  "rx_match pattern1 ''Expiry Date: 12/31/2036'' = None"
  "rx_match pattern2 ''Expiry Date: 12/31/2036'' = Some (''Expiry Date: 12/31/2036'', [''12/31/2036''])"
  "rx_match pattern3 ''Expiry Date: 12/31/2036'' = None"
  "rx_match pattern4 ''Expiry Date: 12/31/2036'' = None"
  "rx_match pattern5 ''Expiry Date: 12/31/2036'' = None"
  "rx_match pattern6 ''Expiry Date: 12/31/2036'' = None"
  "rx_match pattern7 ''Expiry Date: 12/31/2036'' = None"
  "rx_match pattern8 ''Expiry Date: 12/31/2036'' = Some (''Expiry Date: 12/31/2036'', [''12/31/2036''])"
  "rx_match pattern9 ''Expiry Date: 12/31/2036'' = None"
  by code_simp+

lemma parse_2026: "parseDate native ''12/31/2026'' = Some 1798675200000"
  by code_simp

lemma parse_2036: "parseDate native ''12/31/2036'' = Some 2114294400000"
  by code_simp

lemma fields_2026:
  "getFullYear 1798675200000 = 2026" "getMonth 1798675200000 = 11" "getDate 1798675200000 = 31"
  by code_simp+

lemma fields_2036:
  "getFullYear 2114294400000 = 2036" "getMonth 2114294400000 = 11" "getDate 2114294400000 = 31"
  by code_simp+

lemma t7_confidence:
  "calculateConfidence pattern2 ''Expiry Date: 12/31/2026'' = 4278419646001971 / 4503599627370496"
  by code_simp

lemma extract_2026:
  assumes "isValidExpiryDate now 1798675200000"
  shows "extractExpiryDate native now ''Expiry Date: 12/31/2026''
           = \<lparr> date = Some 1798675200000,
               confidence = 4278419646001971 / 4503599627370496 \<rparr>
         \<and> getFullYear 1798675200000 = 2026 \<and> getMonth 1798675200000 = 11
         \<and> getDate 1798675200000 = 31
         \<and> (8 / 10 :: rat) \<le> 4278419646001971 / 4503599627370496"
  using assms
  by (simp add: extractExpiryDate_def t7_clean datePatterns_def t7_matches parse_2026
      t7_confidence fields_2026 del: collapse.simps)

lemma far_future_absent:
  assumes "\<not> isValidExpiryDate now 2114294400000"
  shows "extractExpiryDate native now ''Expiry Date: 12/31/2036''
         = \<lparr> date = None, confidence = 0 \<rparr>"
  using assms
  by (simp add: extractExpiryDate_def t8_clean datePatterns_def t8_matches parse_2036
      del: collapse.simps)

text \<open>
  C7 (as stated): \<open>extractExpiryDate("Expiry Date: 12/31/2026")\<close> returns the date
  2026-12-31 with a confidence of at least 0.8. The result depends on the clock: called on
  1 January 2040 (2208988800000), more than five years after that date, it returns an absent
  date and confidence 0.
\<close>

theorem C7_absent_after_window:
  "extractExpiryDate isoOnlyHost 2208988800000 ''Expiry Date: 12/31/2026''
     = \<lparr> date = None, confidence = 0 \<rparr>"
  by code_simp

text \<open>
  C7 (amended): whenever the current instant lies within 5 * 365 days of the local midnight
  of 31 December 2026 (1798675200000), \<open>extractExpiryDate("Expiry Date: 12/31/2026")\<close>
  returns that instant, whose local year, month and day are 2026, December (month 11) and
  31, with confidence 0.95 (the binary64 number nearest to it), which is at least 0.8.
\<close>

theorem C7_extract_2026_within_window:
  assumes "isValidExpiryDate now 1798675200000"
  shows "extractExpiryDate native now ''Expiry Date: 12/31/2026''
           = \<lparr> date = Some 1798675200000,
               confidence = 4278419646001971 / 4503599627370496 \<rparr>
         \<and> getFullYear 1798675200000 = 2026 \<and> getMonth 1798675200000 = 11
         \<and> getDate 1798675200000 = 31
         \<and> (8 / 10 :: rat) \<le> 4278419646001971 / 4503599627370496"
  using assms by (rule extract_2026)

theorem C7_extract_2026_within_window_witness:
  "isValidExpiryDate 1793664000000 1798675200000
   \<and> extractExpiryDate isoOnlyHost 1793664000000 ''Expiry Date: 12/31/2026''
           = \<lparr> date = Some 1798675200000,
               confidence = 4278419646001971 / 4503599627370496 \<rparr>"
proof -
  have v: "isValidExpiryDate 1793664000000 1798675200000"
    by (simp add: isValidExpiryDate_def)
  show ?thesis using C7_extract_2026_within_window [OF v, of isoOnlyHost] v by blast
qed

text \<open>
  C8: for every text, a date is returned only if it lies within 5 * 365 days of the current
  instant, on either side; a date outside that window is never returned. In particular the
  text \<open>Expiry Date: 12/31/2036\<close> yields an absent date and confidence 0 whenever
  31 December 2036 is outside the window, as it is ten years before it.
\<close>

theorem C8_plausibility_window:
  "(date (extractExpiryDate native now text) = Some d
      \<longrightarrow> now - 5 * 365 * msPerDay \<le> d \<and> d \<le> now + 5 * 365 * msPerDay)
   \<and> (\<not> isValidExpiryDate now 2114294400000
      \<longrightarrow> extractExpiryDate native now ''Expiry Date: 12/31/2036''
            = \<lparr> date = None, confidence = 0 \<rparr>)
   \<and> getFullYear 2114294400000 = 2036 \<and> getMonth 2114294400000 = 11
   \<and> getDate 2114294400000 = 31"
proof -
  have "date (extractExpiryDate native now text) = Some d \<longrightarrow> isValidExpiryDate now d"
    using extractLoop_cases [of native now "trim (collapse text)" datePatterns]
    by (auto simp: extractExpiryDate_def Let_def)
  then show ?thesis
    using far_future_absent [of now native] by (simp add: window_bounds fields_2036)
qed

theorem C8_plausibility_window_witness:
  "date (extractExpiryDate isoOnlyHost 1793664000000 ''Expiry Date: 12/31/2026'') = Some 1798675200000
   \<and> 1793664000000 - 5 * 365 * msPerDay \<le> 1798675200000
   \<and> 1798675200000 \<le> 1793664000000 + 5 * 365 * msPerDay
   \<and> extractExpiryDate isoOnlyHost 1793664000000 ''Expiry Date: 12/31/2036''
       = \<lparr> date = None, confidence = 0 \<rparr>"
proof -
  have v: "isValidExpiryDate 1793664000000 1798675200000"
    by (simp add: isValidExpiryDate_def)
  have "extractExpiryDate isoOnlyHost 1793664000000 ''Expiry Date: 12/31/2026''
           = \<lparr> date = Some 1798675200000,
               confidence = 4278419646001971 / 4503599627370496 \<rparr>"
    using extract_2026 [OF v, of isoOnlyHost] by blast
  then have a: "date (extractExpiryDate isoOnlyHost 1793664000000 ''Expiry Date: 12/31/2026'')
      = Some 1798675200000"
    by (simp only: extraction.simps)
  have b: "\<not> isValidExpiryDate 1793664000000 2114294400000"
    by (simp add: isValidExpiryDate_def)
  show ?thesis
    using C8_plausibility_window [of isoOnlyHost 1793664000000 "''Expiry Date: 12/31/2026''" 1798675200000] a b
    by blast
qed

text \<open>
  C9: for every text, the confidence of the result is 0 exactly when the date is absent, it
  lies between 0 and 0.95, and the result is exactly an absent date with confidence 0 when
  no pattern of the table yields an accepted result (and only then is the date absent).
\<close>

theorem C9_confidence_zero_iff_absent:
  "(confidence (extractExpiryDate native now text) = 0
      \<longleftrightarrow> date (extractExpiryDate native now text) = None)
   \<and> 0 \<le> confidence (extractExpiryDate native now text)
   \<and> confidence (extractExpiryDate native now text) \<le> 95 / 100
   \<and> (filter (accepted native now (trim (collapse text))) datePatterns = []
      \<longrightarrow> extractExpiryDate native now text = \<lparr> date = None, confidence = 0 \<rparr>)
   \<and> (filter (accepted native now (trim (collapse text))) datePatterns \<noteq> []
      \<longrightarrow> date (extractExpiryDate native now text) \<noteq> None)"
proof -
  let ?t = "trim (collapse text)"
  let ?r = "extractLoop native now ?t datePatterns"
  have r: "extractExpiryDate native now text = ?r"
    by (simp add: extractExpiryDate_def Let_def)
  have n: "date ?r = None \<longleftrightarrow> filter (accepted native now ?t) datePatterns = []"
    by (rule extractLoop_none_iff)
  from extractLoop_cases [of native now ?t datePatterns]
  have m: "(confidence ?r = 0 \<longleftrightarrow> date ?r = None) \<and> 0 \<le> confidence ?r
      \<and> confidence ?r \<le> 95 / 100 \<and> (date ?r = None \<longrightarrow> ?r = \<lparr> date = None, confidence = 0 \<rparr>)"
  proof
    assume "?r = \<lparr> date = None, confidence = 0 \<rparr>"
    then show ?thesis by simp
  next
    assume "\<exists>p \<in> set datePatterns. \<exists>w d. ?r
          = \<lparr> date = Some d, confidence = calculateConfidence p w \<rparr>
        \<and> isValidExpiryDate now d"
    then obtain p w d where p: "p \<in> set datePatterns"
      and e: "?r = \<lparr> date = Some d, confidence = calculateConfidence p w \<rparr>" by blast
    have "calculateConfidence p w \<in>
       {7205759403792793 / 9007199254740992, 3602879701896397 / 4503599627370496,
        4278419646001971 / 4503599627370496}"
      by (rule confidence_values [OF p])
    then have "0 < calculateConfidence p w \<and> calculateConfidence p w \<le> 95 / 100"
      by auto
    then show ?thesis unfolding e by simp
  qed
  show ?thesis unfolding r using m n by auto
qed

theorem C9_confidence_zero_iff_absent_witness:
  "extractExpiryDate isoOnlyHost 1793664000000 ''no relevant content here''
     = \<lparr> date = None, confidence = 0 \<rparr>
   \<and> date (extractExpiryDate isoOnlyHost 1793664000000 ''Expiry Date: 12/31/2026'') \<noteq> None
   \<and> confidence (extractExpiryDate isoOnlyHost 1793664000000 ''Expiry Date: 12/31/2026'') \<noteq> 0"
proof -
  have a: "filter (accepted isoOnlyHost 1793664000000 (trim (collapse ''no relevant content here'')))
     datePatterns = []"
    by code_simp
  have b: "filter (accepted isoOnlyHost 1793664000000 (trim (collapse ''Expiry Date: 12/31/2026'')))
     datePatterns \<noteq> []"
    by code_simp
  have 1: "extractExpiryDate isoOnlyHost 1793664000000 ''no relevant content here''
     = \<lparr> date = None, confidence = 0 \<rparr>"
    using C9_confidence_zero_iff_absent [of isoOnlyHost 1793664000000 "''no relevant content here''"] a by blast
  have 2: "date (extractExpiryDate isoOnlyHost 1793664000000 ''Expiry Date: 12/31/2026'') \<noteq> None"
    using C9_confidence_zero_iff_absent [of isoOnlyHost 1793664000000 "''Expiry Date: 12/31/2026''"] b by blast
  have 3: "confidence (extractExpiryDate isoOnlyHost 1793664000000 ''Expiry Date: 12/31/2026'')
     \<noteq> 0"
    using C9_confidence_zero_iff_absent [of isoOnlyHost 1793664000000 "''Expiry Date: 12/31/2026''"] 2 by blast
  show ?thesis using 1 2 3 by blast
qed

text \<open>
  C10 (as stated): whenever a date is returned the confidence is at least 0.8. The patterns
  anchored on \<open>valid until/through/thru\<close> earn 0.5 + 0.2 + 0.1, which in binary64 is
  0.7999999999999999 (7205759403792793 / 2^53), one unit in the last place below 0.8. They
  decide the result when an earlier pattern matched an implausible date first.
\<close>

theorem C10_confidence_below_0_8:
  "date (extractExpiryDate isoOnlyHost 1793664000000 ''expiry 01/01/1990 valid through 12/31/2026'')
     = Some 1798675200000
   \<and> confidence (extractExpiryDate isoOnlyHost 1793664000000
        ''expiry 01/01/1990 valid through 12/31/2026'') = 7205759403792793 / 9007199254740992
   \<and> (7205759403792793 / 9007199254740992 :: rat) < 8 / 10"
  by code_simp

text \<open>
  C10 (amended): whenever a date is returned, the confidence is one of the three binary64
  numbers 0.7999999999999999 (= 0.5 + 0.2 + 0.1 as computed), 0.8 and 0.95; so it is at least
  0.7999999999999999 and at most 0.95.
\<close>

theorem C10_confidence_values:
  "date (extractExpiryDate native now text) = Some d \<longrightarrow>
     7205759403792793 / 9007199254740992 \<le> confidence (extractExpiryDate native now text)
     \<and> confidence (extractExpiryDate native now text) \<le> 4278419646001971 / 4503599627370496
     \<and> confidence (extractExpiryDate native now text) \<in>
         {7205759403792793 / 9007199254740992, 3602879701896397 / 4503599627370496,
          4278419646001971 / 4503599627370496}"
proof
  let ?t = "trim (collapse text)"
  let ?r = "extractLoop native now ?t datePatterns"
  have r: "extractExpiryDate native now text = ?r"
    by (simp add: extractExpiryDate_def Let_def)
  assume "date (extractExpiryDate native now text) = Some d"
  then have "?r \<noteq> \<lparr> date = None, confidence = 0 \<rparr>" unfolding r by auto
  with extractLoop_cases [of native now ?t datePatterns]
  obtain p w d' where p: "p \<in> set datePatterns"
      and e: "?r = \<lparr> date = Some d', confidence = calculateConfidence p w \<rparr>" by blast
  have "calculateConfidence p w \<in>
       {7205759403792793 / 9007199254740992, 3602879701896397 / 4503599627370496,
        4278419646001971 / 4503599627370496}"
    by (rule confidence_values [OF p])
  then show "7205759403792793 / 9007199254740992 \<le> confidence (extractExpiryDate native now text)
     \<and> confidence (extractExpiryDate native now text) \<le> 4278419646001971 / 4503599627370496
     \<and> confidence (extractExpiryDate native now text) \<in>
         {7205759403792793 / 9007199254740992, 3602879701896397 / 4503599627370496,
          4278419646001971 / 4503599627370496}"
    unfolding r e by auto
qed

theorem C10_confidence_values_witness:
  "date (extractExpiryDate isoOnlyHost 1793664000000 ''Expiry Date: 12/31/2026'')
     = Some 1798675200000
   \<and> 7205759403792793 / 9007199254740992
       \<le> confidence (extractExpiryDate isoOnlyHost 1793664000000 ''Expiry Date: 12/31/2026'')"
proof -
  have v: "isValidExpiryDate 1793664000000 1798675200000"
    by (simp add: isValidExpiryDate_def)
  have "extractExpiryDate isoOnlyHost 1793664000000 ''Expiry Date: 12/31/2026''
           = \<lparr> date = Some 1798675200000,
               confidence = 4278419646001971 / 4503599627370496 \<rparr>"
    using extract_2026 [OF v, of isoOnlyHost] by blast
  then have a: "date (extractExpiryDate isoOnlyHost 1793664000000 ''Expiry Date: 12/31/2026'')
      = Some 1798675200000"
    by (simp only: extraction.simps)
  show ?thesis
    using C10_confidence_values [of isoOnlyHost 1793664000000 "''Expiry Date: 12/31/2026''" 1798675200000] a
    by blast
qed

end
